theory Spec2Isabelle
  imports Complex_Main
begin

section \<open>The Axilrod-Teller three-body force kernel (multibody\_kernel.h)\<close>

text \<open>
  A shallow embedding of the class \<^verbatim>\<open>AxilrodTellerForceKernel<TTree, TBound>\<close>.
  The private and public member functions keep their names. Mutation is explicit state
  passing: the kernel's members (\<^verbatim>\<open>distmat_\<close>, \<^verbatim>\<open>index_orders_\<close>) form a record,
  the tree nodes live in a store addressed by pointers, and every function that writes
  one of them returns the new value.
\<close>

subsection \<open>The type double\<close>

text \<open>
  A C++ \<^verbatim>\<open>double\<close> is modelled as a real number or one of the three special values of
  IEEE 754 arithmetic. The special values arise and propagate as in IEEE 754 (division
  by zero, the square root of a negative number, the difference of two infinities, zero
  times infinity; every comparison with NaN is false), and a product or a quotient of
  two numbers overflows to an infinity as in IEEE 754. Rounding and the sign of zero are
  not modelled: a result that does not overflow is exact, a zero divisor counts as
  \<open>+0\<close>, and a sum of two numbers is their exact sum.
\<close>

datatype double = Fin real | PInf | NInf | NaN

fun signed_inf :: "real \<Rightarrow> double" where
  "signed_inf s = (if 0 < s then PInf else if s < 0 then NInf else NaN)"

text \<open>
  The largest double is \<^verbatim>\<open>(2 - 2^-52) * 2^1023\<close>, and round-to-nearest gives an infinity
  for every result of magnitude \<^verbatim>\<open>(2 - 2^-53) * 2^1023\<close> or more.
\<close>

definition overflow_threshold :: real where
  "overflow_threshold = (2 - 1 / 2 ^ 53) * 2 ^ 1023"

definition overflow :: "real \<Rightarrow> double" where
  "overflow x = (if \<bar>x\<bar> < overflow_threshold then Fin x else signed_inf x)"

instantiation double :: "{zero, plus, uminus, minus, times, inverse, abs, ord}"
begin

definition zero_double :: double where
  "zero_double = Fin 0"

fun plus_double :: "double \<Rightarrow> double \<Rightarrow> double" where
  "plus_double (Fin a) (Fin b) = Fin (a + b)"
| "plus_double NaN _ = NaN"
| "plus_double _ NaN = NaN"
| "plus_double PInf NInf = NaN"
| "plus_double NInf PInf = NaN"
| "plus_double PInf _ = PInf"
| "plus_double _ PInf = PInf"
| "plus_double NInf _ = NInf"
| "plus_double _ NInf = NInf"

fun uminus_double :: "double \<Rightarrow> double" where
  "uminus_double (Fin a) = Fin (- a)"
| "uminus_double PInf = NInf"
| "uminus_double NInf = PInf"
| "uminus_double NaN = NaN"

definition minus_double :: "double \<Rightarrow> double \<Rightarrow> double" where
  "minus_double (x::double) y = x + (- y)"

fun times_double :: "double \<Rightarrow> double \<Rightarrow> double" where
  "times_double (Fin a) (Fin b) = overflow (a * b)"
| "times_double NaN _ = NaN"
| "times_double _ NaN = NaN"
| "times_double (Fin a) PInf = signed_inf a"
| "times_double (Fin a) NInf = signed_inf (- a)"
| "times_double PInf (Fin b) = signed_inf b"
| "times_double NInf (Fin b) = signed_inf (- b)"
| "times_double PInf PInf = PInf"
| "times_double PInf NInf = NInf"
| "times_double NInf PInf = NInf"
| "times_double NInf NInf = PInf"

fun divide_double :: "double \<Rightarrow> double \<Rightarrow> double" where
  "divide_double (Fin a) (Fin b) = (if b = 0 then signed_inf a else overflow (a / b))"
| "divide_double NaN _ = NaN"
| "divide_double _ NaN = NaN"
| "divide_double (Fin a) PInf = Fin 0"
| "divide_double (Fin a) NInf = Fin 0"
| "divide_double PInf (Fin b) = (if b < 0 then NInf else PInf)"
| "divide_double NInf (Fin b) = (if b < 0 then PInf else NInf)"
| "divide_double PInf PInf = NaN"
| "divide_double PInf NInf = NaN"
| "divide_double NInf PInf = NaN"
| "divide_double NInf NInf = NaN"

definition inverse_double :: "double \<Rightarrow> double" where
  "inverse_double (x::double) = divide (Fin 1) x"

fun abs_double :: "double \<Rightarrow> double" where
  "abs_double (Fin a) = Fin \<bar>a\<bar>"
| "abs_double PInf = PInf"
| "abs_double NInf = PInf"
| "abs_double NaN = NaN"

fun less_eq_double :: "double \<Rightarrow> double \<Rightarrow> bool" where
  "less_eq_double (Fin a) (Fin b) = (a \<le> b)"
| "less_eq_double NaN _ = False"
| "less_eq_double _ NaN = False"
| "less_eq_double NInf _ = True"
| "less_eq_double _ PInf = True"
| "less_eq_double PInf _ = False"
| "less_eq_double _ NInf = False"

fun less_double :: "double \<Rightarrow> double \<Rightarrow> bool" where
  "less_double (Fin a) (Fin b) = (a < b)"
| "less_double NaN _ = False"
| "less_double _ NaN = False"
| "less_double PInf _ = False"
| "less_double _ NInf = False"
| "less_double NInf _ = True"
| "less_double _ PInf = True"

instance ..

end

text \<open>\<^verbatim>\<open>fabs\<close>, \<^verbatim>\<open>sqrt\<close>, \<^verbatim>\<open>isnan\<close>, \<^verbatim>\<open>isinf\<close>, \<^verbatim>\<open>std::min\<close>, \<^verbatim>\<open>std::max\<close> and \<^verbatim>\<open>==\<close> on doubles.\<close>

definition fabs :: "double \<Rightarrow> double" where
  "fabs x = \<bar>x\<bar>"

fun dsqrt :: "double \<Rightarrow> double" where
  "dsqrt (Fin a) = (if a < 0 then NaN else Fin (sqrt a))"
| "dsqrt PInf = PInf"
| "dsqrt NInf = NaN"
| "dsqrt NaN = NaN"

fun isnan :: "double \<Rightarrow> bool" where
  "isnan NaN = True"
| "isnan _ = False"

fun isinf :: "double \<Rightarrow> bool" where
  "isinf PInf = True"
| "isinf NInf = True"
| "isinf _ = False"

fun is_finite :: "double \<Rightarrow> bool" where
  "is_finite (Fin a) = True"
| "is_finite _ = False"

text \<open>\<^verbatim>\<open>std::min(a, b)\<close> is \<^verbatim>\<open>(b < a) ? b : a\<close> and \<^verbatim>\<open>std::max(a, b)\<close> is \<^verbatim>\<open>(a < b) ? b : a\<close>.\<close>

definition std_min :: "double \<Rightarrow> double \<Rightarrow> double" where
  "std_min a b = (if b < a then b else a)"

definition std_max :: "double \<Rightarrow> double \<Rightarrow> double" where
  "std_max a b = (if a < b then b else a)"

fun deq :: "double \<Rightarrow> double \<Rightarrow> bool" where
  "deq (Fin a) (Fin b) = (a = b)"
| "deq PInf PInf = True"
| "deq NInf NInf = True"
| "deq _ _ = False"

text \<open>\<^verbatim>\<open>math::Sqr\<close> (fastlib, not under src): the square of its argument.\<close>

definition Sqr :: "double \<Rightarrow> double" where
  "Sqr x = x * x"

text \<open>
  \<^verbatim>\<open>index_t\<close> is fastlib's index type (declared outside src): a 32-bit signed \<^verbatim>\<open>int\<close>. Its
  values are modelled as integers, and \<open>index_t_wrap\<close> is the value that 32-bit
  two's-complement arithmetic leaves for an exact result: a product of two counts is
  computed in \<^verbatim>\<open>index_t\<close> and wraps around before it is converted to a double.
\<close>

definition index_t_wrap :: "int \<Rightarrow> int" where
  "index_t_wrap n = (n + 2 ^ 31) mod 2 ^ 32 - 2 ^ 31"

text \<open>The integers that are values of \<^verbatim>\<open>index_t\<close>.\<close>

definition in_index_t :: "int \<Rightarrow> bool" where
  "in_index_t n = (- (2 ^ 31) \<le> n \<and> n < 2 ^ 31)"

text \<open>The conversion of an \<^verbatim>\<open>index_t\<close> to a double.\<close>

definition of_index :: "int \<Rightarrow> double" where
  "of_index n = Fin (of_int n)"

definition DBL_MAX :: double where
  "DBL_MAX = Fin ((2 - 1 / 2 ^ 52) * 2 ^ 1023)"

definition AXILROD_TELLER_COEFF :: double where
  "AXILROD_TELLER_COEFF = Fin (1 / 10 ^ 18)"


subsection \<open>Tree nodes and their statistics\<close>

text \<open>
  \<^verbatim>\<open>Vector\<close> is fastlib's vector of doubles. The statistics class of a tree node is
  declared outside src; the record holds the members this kernel reads or writes.
\<close>

type_synonym Vector = "double list"

record Statistics =
  negative_gradient1_u :: double
  positive_gradient1_l :: double
  negative_gradient2_u :: Vector
  positive_gradient2_l :: Vector
  l1_norm_coordinate_sum' :: double
  coordinate_sum' :: Vector
  postponed_negative_gradient1_e :: double
  postponed_negative_gradient1_u :: double
  postponed_positive_gradient1_l :: double
  postponed_positive_gradient1_e :: double
  postponed_negative_gradient2_e :: Vector
  postponed_negative_gradient2_u :: Vector
  postponed_positive_gradient2_l :: Vector
  postponed_positive_gradient2_e :: Vector

text \<open>
  A node of the template parameter \<^verbatim>\<open>TTree\<close>: \<^verbatim>\<open>count()\<close>, \<^verbatim>\<open>begin()\<close>, \<^verbatim>\<open>end()\<close>,
  \<^verbatim>\<open>bound()\<close> and \<^verbatim>\<open>stat()\<close>. The bound type \<^verbatim>\<open>TBound\<close> is the type parameter \<open>'b\<close>; its
  methods \<^verbatim>\<open>MinDistanceSq\<close> and \<^verbatim>\<open>MaxDistanceSq\<close> are parameters of the functions that call
  them.
\<close>

record 'b TTree =
  count :: int
  begin_index :: int
  end_index :: int
  bound :: 'b
  stat :: Statistics

text \<open>
  A \<^verbatim>\<open>TTree *\<close> is an address, and the nodes are a store from addresses to nodes: two slots
  of a triple hold the same node exactly when they hold the same address. The list
  \<^verbatim>\<open>ArrayList<TTree *> &tree_nodes\<close> has the three entries the kernel's order gives it.
\<close>

type_synonym addr = nat

type_synonym 'b store = "addr \<Rightarrow> 'b TTree"

type_synonym tree_nodes = "addr \<times> addr \<times> addr"

subsection \<open>ComputeNumTwoTuples\_\<close>

text \<open>
  Modelled from the spec: \<^verbatim>\<open>math::BinomialCoefficient(n, k)\<close> is fastlib's, not under src.
  It is the number of \<open>k\<close>-element subsets of \<open>n\<close> elements ("choose(count, 2)"), as a
  double, and zero when \<open>k\<close> is out of range.
\<close>

definition BinomialCoefficient :: "int \<Rightarrow> int \<Rightarrow> double" where
  "BinomialCoefficient n k =
     (if k < 0 \<or> n < k then Fin 0 else Fin (real (nat n choose nat k)))"

text \<open>
  The three results are the reference parameters \<^verbatim>\<open>num_jk_pairs\<close>, \<^verbatim>\<open>num_ik_pairs\<close> and
  \<^verbatim>\<open>num_ij_pairs\<close>, in this order. The differences and products are computed in
  \<^verbatim>\<open>index_t\<close>, and their results are converted to double by the assignment.
\<close>

fun ComputeNumTwoTuples' :: "'b store \<Rightarrow> tree_nodes \<Rightarrow> double \<times> double \<times> double" where
  "ComputeNumTwoTuples' s (n0, n1, n2) =
     (if n0 = n1 then
        (if n1 = n2 then
           (let num_jk_pairs = BinomialCoefficient (index_t_wrap (count (s n0) - 1)) 2
            in (num_jk_pairs, num_jk_pairs, num_jk_pairs))
         else
           (let num_jk_pairs =
                  of_index (index_t_wrap (index_t_wrap (count (s n0) - 1) * count (s n2)))
            in (num_jk_pairs, num_jk_pairs, BinomialCoefficient (count (s n0)) 2)))
      else
        (if n1 = n2 then
           (BinomialCoefficient (count (s n1)) 2,
            of_index (index_t_wrap (count (s n0) * index_t_wrap (count (s n2) - 1))),
            of_index (index_t_wrap (count (s n0) * index_t_wrap (count (s n1) - 1))))
         else
           (of_index (index_t_wrap (count (s n1) * count (s n2))),
            of_index (index_t_wrap (count (s n0) * count (s n2))),
            of_index (index_t_wrap (count (s n0) * count (s n1))))))"


subsection \<open>L1Norm\_ and la::AddExpert\<close>

definition L1Norm' :: "Vector \<Rightarrow> double" where
  "L1Norm' v = foldl (\<lambda>length' x. length' + fabs x) (Fin 0) v"

text \<open>
  Modelled from the spec: \<^verbatim>\<open>la::AddExpert(alpha, x, &y)\<close> is fastlib's, not under src. It is
  the "add-scaled-vector update" \<open>y := alpha * x + y\<close> over the entries of \<open>x\<close>; the
  result is the new \<open>y\<close>. fastlib asserts that the two vectors are equally long.
\<close>

fun AddExpert :: "double \<Rightarrow> Vector \<Rightarrow> Vector \<Rightarrow> Vector" where
  "AddExpert alpha (x # xs) (y # ys) = (alpha * x + y) # AddExpert alpha xs ys"
| "AddExpert alpha [] ys = ys"
| "AddExpert alpha xs [] = []"

subsection \<open>Prune\_\<close>

text \<open>
  \<^verbatim>\<open>tree_nodes[n]->stat().f += v\<close> and \<^verbatim>\<open>la::AddExpert(alpha, x, &(tree_nodes[n]->stat().f))\<close>
  write the statistics of the node at address \<open>n\<close>; every statement reads the store the
  statements before it left.
\<close>

definition upd_stat :: "'b store \<Rightarrow> addr \<Rightarrow> (Statistics \<Rightarrow> Statistics) \<Rightarrow> 'b store" where
  "upd_stat s n f = s(n := (s n)\<lparr>stat := f (stat (s n))\<rparr>)"

text \<open>"First the i-th node." (lines 57 to 103)\<close>

definition Prune_first ::
  "'b store \<Rightarrow> tree_nodes \<Rightarrow> double \<Rightarrow> double \<Rightarrow> double \<Rightarrow> double \<Rightarrow>
   double \<Rightarrow> double \<Rightarrow> double \<Rightarrow> double \<Rightarrow> double \<Rightarrow> 'b store" where
  "Prune_first s tree_nodes min_negative_gradient1 max_negative_gradient1
     min_positive_gradient1 max_positive_gradient1 min_negative_gradient2
     max_negative_gradient2 min_positive_gradient2 max_positive_gradient2 num_jk_pairs =
   (case tree_nodes of (n0, n1, n2) \<Rightarrow>
    let s = upd_stat s n0 (postponed_negative_gradient1_e_update (\<lambda>v. v +
              num_jk_pairs * Fin 0.5 * (min_negative_gradient1 + max_negative_gradient1 +
                                        min_negative_gradient2 + max_negative_gradient2)));
        s = upd_stat s n0 (postponed_negative_gradient1_u_update (\<lambda>v. v +
              num_jk_pairs * (max_negative_gradient1 + max_negative_gradient2)));
        s = upd_stat s n0 (postponed_positive_gradient1_l_update (\<lambda>v. v +
              num_jk_pairs * (min_positive_gradient1 + min_positive_gradient2)));
        s = upd_stat s n0 (postponed_positive_gradient1_e_update (\<lambda>v. v +
              num_jk_pairs * Fin 0.5 * (min_positive_gradient1 + max_positive_gradient1 +
                                        min_positive_gradient2 + max_positive_gradient2)));
        s = upd_stat s n0 (postponed_negative_gradient2_e_update (AddExpert
              (of_index (count (s n2)) *
               Fin 0.5 * (min_negative_gradient1 + max_negative_gradient1))
              (coordinate_sum' (stat (s n1)))));
        s = upd_stat s n0 (postponed_negative_gradient2_e_update (AddExpert
              (of_index (count (s n1)) *
               Fin 0.5 * (min_negative_gradient2 + max_negative_gradient2))
              (coordinate_sum' (stat (s n2)))));
        s = upd_stat s n0 (postponed_negative_gradient2_u_update (AddExpert
              (of_index (count (s n2)) *
               max_negative_gradient1) (coordinate_sum' (stat (s n1)))));
        s = upd_stat s n0 (postponed_negative_gradient2_u_update (AddExpert
              (of_index (count (s n1)) *
               max_negative_gradient2) (coordinate_sum' (stat (s n2)))));
        s = upd_stat s n0 (postponed_positive_gradient2_l_update (AddExpert
              (of_index (count (s n2)) *
               min_positive_gradient1) (coordinate_sum' (stat (s n1)))));
        s = upd_stat s n0 (postponed_positive_gradient2_l_update (AddExpert
              (of_index (count (s n1)) *
               min_positive_gradient2) (coordinate_sum' (stat (s n2)))));
        s = upd_stat s n0 (postponed_positive_gradient2_e_update (AddExpert
              (of_index (count (s n2)) *
               Fin 0.5 * (min_positive_gradient1 + max_positive_gradient1))
              (coordinate_sum' (stat (s n1)))));
        s = upd_stat s n0 (postponed_positive_gradient2_e_update (AddExpert
              (of_index (count (s n1)) *
               Fin 0.5 * (min_positive_gradient2 + max_positive_gradient2))
              (coordinate_sum' (stat (s n2)))))
    in s)"

text \<open>
  "Then the j-th node, if it is not the same as the i-th node..." (lines 107 to 152, the
  body of the conditional)
\<close>

definition Prune_second ::
  "'b store \<Rightarrow> tree_nodes \<Rightarrow> double \<Rightarrow> double \<Rightarrow> double \<Rightarrow> double \<Rightarrow>
   double \<Rightarrow> double \<Rightarrow> double \<Rightarrow> double \<Rightarrow> double \<Rightarrow> 'b store" where
  "Prune_second s tree_nodes min_negative_gradient1 max_negative_gradient1
     min_positive_gradient1 max_positive_gradient1 min_negative_gradient3
     max_negative_gradient3 min_positive_gradient3 max_positive_gradient3 num_ik_pairs =
   (case tree_nodes of (n0, n1, n2) \<Rightarrow>
    let s = upd_stat s n1 (postponed_negative_gradient1_e_update (\<lambda>v. v +
              num_ik_pairs * Fin 0.5 * (min_negative_gradient1 + max_negative_gradient1 +
                                        min_negative_gradient3 + max_negative_gradient3)));
        s = upd_stat s n1 (postponed_negative_gradient1_u_update (\<lambda>v. v +
              num_ik_pairs * (max_negative_gradient1 + max_negative_gradient3)));
        s = upd_stat s n1 (postponed_positive_gradient1_l_update (\<lambda>v. v +
              num_ik_pairs * (min_positive_gradient1 + min_positive_gradient3)));
        s = upd_stat s n1 (postponed_positive_gradient1_e_update (\<lambda>v. v +
              num_ik_pairs * Fin 0.5 * (min_positive_gradient1 + max_positive_gradient1 +
                                        min_positive_gradient3 + max_positive_gradient3)));
        s = upd_stat s n1 (postponed_negative_gradient2_e_update (AddExpert
              (of_index (count (s n2)) *
               Fin 0.5 * (min_negative_gradient1 + max_negative_gradient1))
              (coordinate_sum' (stat (s n0)))));
        s = upd_stat s n1 (postponed_negative_gradient2_e_update (AddExpert
              (of_index (count (s n0)) *
               Fin 0.5 * (min_negative_gradient3 + max_negative_gradient3))
              (coordinate_sum' (stat (s n2)))));
        s = upd_stat s n1 (postponed_negative_gradient2_u_update (AddExpert
              (of_index (count (s n2)) *
               max_negative_gradient1) (coordinate_sum' (stat (s n0)))));
        s = upd_stat s n1 (postponed_negative_gradient2_u_update (AddExpert
              (of_index (count (s n0)) *
               max_negative_gradient3) (coordinate_sum' (stat (s n2)))));
        s = upd_stat s n1 (postponed_positive_gradient2_l_update (AddExpert
              (of_index (count (s n2)) *
               min_positive_gradient1) (coordinate_sum' (stat (s n0)))));
        s = upd_stat s n1 (postponed_positive_gradient2_l_update (AddExpert
              (of_index (count (s n0)) *
               min_positive_gradient3) (coordinate_sum' (stat (s n2)))));
        s = upd_stat s n1 (postponed_positive_gradient2_e_update (AddExpert
              (of_index (count (s n2)) *
               Fin 0.5 * (min_positive_gradient1 + max_positive_gradient1))
              (coordinate_sum' (stat (s n0)))));
        s = upd_stat s n1 (postponed_positive_gradient2_e_update (AddExpert
              (of_index (count (s n0)) *
               Fin 0.5 * (min_positive_gradient3 + max_positive_gradient3))
              (coordinate_sum' (stat (s n2)))))
    in s)"

text \<open>"Then the k-th node." (lines 157 to 202, the body of the conditional)\<close>

definition Prune_third ::
  "'b store \<Rightarrow> tree_nodes \<Rightarrow> double \<Rightarrow> double \<Rightarrow> double \<Rightarrow> double \<Rightarrow>
   double \<Rightarrow> double \<Rightarrow> double \<Rightarrow> double \<Rightarrow> double \<Rightarrow> 'b store" where
  "Prune_third s tree_nodes min_negative_gradient2 max_negative_gradient2
     min_positive_gradient2 max_positive_gradient2 min_negative_gradient3
     max_negative_gradient3 min_positive_gradient3 max_positive_gradient3 num_ij_pairs =
   (case tree_nodes of (n0, n1, n2) \<Rightarrow>
    let s = upd_stat s n2 (postponed_negative_gradient1_e_update (\<lambda>v. v +
              num_ij_pairs * Fin 0.5 * (min_negative_gradient2 + max_negative_gradient2 +
                                        min_negative_gradient3 + max_negative_gradient3)));
        s = upd_stat s n2 (postponed_negative_gradient1_u_update (\<lambda>v. v +
              num_ij_pairs * (max_negative_gradient2 + max_negative_gradient3)));
        s = upd_stat s n2 (postponed_positive_gradient1_l_update (\<lambda>v. v +
              num_ij_pairs * (min_positive_gradient2 + min_positive_gradient3)));
        s = upd_stat s n2 (postponed_positive_gradient1_e_update (\<lambda>v. v +
              num_ij_pairs * Fin 0.5 * (min_positive_gradient2 + max_positive_gradient2 +
                                        min_positive_gradient3 + max_positive_gradient3)));
        s = upd_stat s n2 (postponed_negative_gradient2_e_update (AddExpert
              (of_index (count (s n1)) *
               Fin 0.5 * (min_negative_gradient2 + max_negative_gradient2))
              (coordinate_sum' (stat (s n0)))));
        s = upd_stat s n2 (postponed_negative_gradient2_e_update (AddExpert
              (of_index (count (s n0)) *
               Fin 0.5 * (min_negative_gradient3 + max_negative_gradient3))
              (coordinate_sum' (stat (s n1)))));
        s = upd_stat s n2 (postponed_negative_gradient2_u_update (AddExpert
              (of_index (count (s n1)) *
               max_negative_gradient2) (coordinate_sum' (stat (s n0)))));
        s = upd_stat s n2 (postponed_negative_gradient2_u_update (AddExpert
              (of_index (count (s n0)) *
               max_negative_gradient3) (coordinate_sum' (stat (s n1)))));
        s = upd_stat s n2 (postponed_positive_gradient2_l_update (AddExpert
              (of_index (count (s n1)) *
               min_positive_gradient2) (coordinate_sum' (stat (s n0)))));
        s = upd_stat s n2 (postponed_positive_gradient2_l_update (AddExpert
              (of_index (count (s n0)) *
               min_positive_gradient3) (coordinate_sum' (stat (s n1)))));
        s = upd_stat s n2 (postponed_positive_gradient2_e_update (AddExpert
              (of_index (count (s n1)) *
               Fin 0.5 * (min_positive_gradient2 + max_positive_gradient2))
              (coordinate_sum' (stat (s n0)))));
        s = upd_stat s n2 (postponed_positive_gradient2_e_update (AddExpert
              (of_index (count (s n0)) *
               Fin 0.5 * (min_positive_gradient3 + max_positive_gradient3))
              (coordinate_sum' (stat (s n1)))))
    in s)"

text \<open>
  \<^verbatim>\<open>Prune_\<close>: the first block, the second when \<^verbatim>\<open>tree_nodes[1] != tree_nodes[0]\<close>, the
  third when \<^verbatim>\<open>tree_nodes[2] != tree_nodes[1]\<close>.
\<close>

definition Prune' ::
  "'b store \<Rightarrow> tree_nodes \<Rightarrow> double \<Rightarrow> double \<Rightarrow> double \<Rightarrow> double \<Rightarrow>
   double \<Rightarrow> double \<Rightarrow> double \<Rightarrow> double \<Rightarrow> double \<Rightarrow> double \<Rightarrow> double \<Rightarrow> double \<Rightarrow>
   double \<Rightarrow> double \<Rightarrow> double \<Rightarrow> 'b store" where
  "Prune' s tree_nodes min_negative_gradient1 max_negative_gradient1
     min_positive_gradient1 max_positive_gradient1 min_negative_gradient2
     max_negative_gradient2 min_positive_gradient2 max_positive_gradient2
     min_negative_gradient3 max_negative_gradient3 min_positive_gradient3
     max_positive_gradient3 num_jk_pairs num_ik_pairs num_ij_pairs =
   (case tree_nodes of (n0, n1, n2) \<Rightarrow>
    let s = Prune_first s tree_nodes min_negative_gradient1 max_negative_gradient1
              min_positive_gradient1 max_positive_gradient1 min_negative_gradient2
              max_negative_gradient2 min_positive_gradient2 max_positive_gradient2
              num_jk_pairs;
        s = (if n1 \<noteq> n0 then
               Prune_second s tree_nodes min_negative_gradient1 max_negative_gradient1
                 min_positive_gradient1 max_positive_gradient1 min_negative_gradient3
                 max_negative_gradient3 min_positive_gradient3 max_positive_gradient3
                 num_ik_pairs
             else s);
        s = (if n2 \<noteq> n1 then
               Prune_third s tree_nodes min_negative_gradient2 max_negative_gradient2
                 min_positive_gradient2 max_positive_gradient2 min_negative_gradient3
                 max_negative_gradient3 min_positive_gradient3 max_positive_gradient3
                 num_ij_pairs
             else s)
    in s)"


text \<open>
  The three guarded blocks of \<^verbatim>\<open>Prune_\<close> one by one: \<open>Prune_slot i\<close> is the update of slot
  \<open>i\<close> with its guard, so that \<^verbatim>\<open>Prune_\<close> applies the slots 0, 1 and 2 in this order. It
  serves to state that the order does not matter.
\<close>

definition Prune_slot ::
  "nat \<Rightarrow> 'b store \<Rightarrow> tree_nodes \<Rightarrow> double \<Rightarrow> double \<Rightarrow> double \<Rightarrow> double \<Rightarrow>
   double \<Rightarrow> double \<Rightarrow> double \<Rightarrow> double \<Rightarrow> double \<Rightarrow> double \<Rightarrow> double \<Rightarrow> double \<Rightarrow>
   double \<Rightarrow> double \<Rightarrow> double \<Rightarrow> 'b store" where
  "Prune_slot i s tree_nodes min_negative_gradient1 max_negative_gradient1
     min_positive_gradient1 max_positive_gradient1 min_negative_gradient2
     max_negative_gradient2 min_positive_gradient2 max_positive_gradient2
     min_negative_gradient3 max_negative_gradient3 min_positive_gradient3
     max_positive_gradient3 num_jk_pairs num_ik_pairs num_ij_pairs =
   (case tree_nodes of (n0, n1, n2) \<Rightarrow>
      if i = 0 then
        Prune_first s tree_nodes min_negative_gradient1 max_negative_gradient1
          min_positive_gradient1 max_positive_gradient1 min_negative_gradient2
          max_negative_gradient2 min_positive_gradient2 max_positive_gradient2
          num_jk_pairs
      else if i = 1 then
        (if n1 \<noteq> n0 then
           Prune_second s tree_nodes min_negative_gradient1 max_negative_gradient1
             min_positive_gradient1 max_positive_gradient1 min_negative_gradient3
             max_negative_gradient3 min_positive_gradient3 max_positive_gradient3
             num_ik_pairs
         else s)
      else
        (if n2 \<noteq> n1 then
           Prune_third s tree_nodes min_negative_gradient2 max_negative_gradient2
             min_positive_gradient2 max_positive_gradient2 min_negative_gradient3
             max_negative_gradient3 min_positive_gradient3 max_positive_gradient3
             num_ij_pairs
         else s))"

text \<open>
  What one block of \<^verbatim>\<open>Prune_\<close> adds to the statistics of its node, as one function of the
  statistics, for use in proofs: the pair count of the block, the bounds \<open>A\<close> and \<open>B\<close> of
  the two gradients that touch the node, and for each of them the count and the
  coordinate sum it is weighted with. The lemmas \<open>Prune_first_eq\<close>, \<open>Prune_second_eq\<close> and
  \<open>Prune_third_eq\<close> below show that each block is this update of its node.
\<close>

definition slot_update ::
  "double \<Rightarrow> double \<Rightarrow> double \<Rightarrow> double \<Rightarrow> double \<Rightarrow> double \<Rightarrow> double \<Rightarrow> double \<Rightarrow> double \<Rightarrow>
   int \<Rightarrow> Vector \<Rightarrow> int \<Rightarrow> Vector \<Rightarrow> Statistics \<Rightarrow> Statistics" where
  "slot_update num_pairs min_negative_A max_negative_A min_positive_A max_positive_A
     min_negative_B max_negative_B min_positive_B max_positive_B count_A sum_A count_B sum_B
     st =
   st\<lparr>postponed_negative_gradient1_e :=
        postponed_negative_gradient1_e st +
        num_pairs * Fin 0.5 * (min_negative_A + max_negative_A +
                               min_negative_B + max_negative_B),
      postponed_negative_gradient1_u :=
        postponed_negative_gradient1_u st + num_pairs * (max_negative_A + max_negative_B),
      postponed_positive_gradient1_l :=
        postponed_positive_gradient1_l st + num_pairs * (min_positive_A + min_positive_B),
      postponed_positive_gradient1_e :=
        postponed_positive_gradient1_e st +
        num_pairs * Fin 0.5 * (min_positive_A + max_positive_A +
                               min_positive_B + max_positive_B),
      postponed_negative_gradient2_e :=
        AddExpert (of_index count_B * Fin 0.5 * (min_negative_B + max_negative_B)) sum_B
          (AddExpert (of_index count_A * Fin 0.5 * (min_negative_A + max_negative_A)) sum_A
             (postponed_negative_gradient2_e st)),
      postponed_negative_gradient2_u :=
        AddExpert (of_index count_B * max_negative_B) sum_B
          (AddExpert (of_index count_A * max_negative_A) sum_A
             (postponed_negative_gradient2_u st)),
      postponed_positive_gradient2_l :=
        AddExpert (of_index count_B * min_positive_B) sum_B
          (AddExpert (of_index count_A * min_positive_A) sum_A
             (postponed_positive_gradient2_l st)),
      postponed_positive_gradient2_e :=
        AddExpert (of_index count_B * Fin 0.5 * (min_positive_B + max_positive_B)) sum_B
          (AddExpert (of_index count_A * Fin 0.5 * (min_positive_A + max_positive_A)) sum_A
             (postponed_positive_gradient2_e st))\<rparr>"

subsection \<open>Prunable\_\<close>

text \<open>The initialiser of \<^verbatim>\<open>first_node_prunable\<close> (lines 220 to 244).\<close>

definition first_node_prunable ::
  "'b store \<Rightarrow> tree_nodes \<Rightarrow> double \<Rightarrow> double \<Rightarrow> double \<Rightarrow> double \<Rightarrow>
   double \<Rightarrow> double \<Rightarrow> double \<Rightarrow> bool" where
  "first_node_prunable s tree_nodes negative_gradient1_error positive_gradient1_error
     negative_gradient2_error positive_gradient2_error num_jk_pairs relative_error
     total_n_minus_one_num_tuples =
   (case tree_nodes of (n0, n1, n2) \<Rightarrow>
      ((negative_gradient1_error + negative_gradient2_error) \<le>
       (relative_error / total_n_minus_one_num_tuples) *
       fabs (negative_gradient1_u (stat (s n0)) +
             postponed_negative_gradient1_u (stat (s n0))))
      \<and>
      ((positive_gradient1_error + positive_gradient2_error) \<le>
       (relative_error / total_n_minus_one_num_tuples) *
       (positive_gradient1_l (stat (s n0)) +
        postponed_positive_gradient1_l (stat (s n0))))
      \<and>
      (of_index (count (s n2)) * l1_norm_coordinate_sum' (stat (s n1)) *
       negative_gradient1_error +
       of_index (count (s n1)) * l1_norm_coordinate_sum' (stat (s n2)) *
       negative_gradient2_error \<le>
       relative_error * num_jk_pairs / total_n_minus_one_num_tuples *
       L1Norm' (negative_gradient2_u (stat (s n0))))
      \<and>
      (of_index (count (s n2)) * l1_norm_coordinate_sum' (stat (s n1)) *
       positive_gradient1_error +
       of_index (count (s n1)) * l1_norm_coordinate_sum' (stat (s n2)) *
       positive_gradient2_error \<le>
       relative_error * num_jk_pairs / total_n_minus_one_num_tuples *
       (L1Norm' (positive_gradient2_l (stat (s n0))) +
        L1Norm' (postponed_positive_gradient2_l (stat (s n0))))))"

text \<open>
  The test of the second node (lines 253 to 279): the branch of the initialiser of
  \<^verbatim>\<open>second_node_prunable\<close> taken when \<^verbatim>\<open>tree_nodes[1] != tree_nodes[0]\<close>.
\<close>

definition second_node_test ::
  "'b store \<Rightarrow> tree_nodes \<Rightarrow> double \<Rightarrow> double \<Rightarrow> double \<Rightarrow> double \<Rightarrow>
   double \<Rightarrow> double \<Rightarrow> double \<Rightarrow> bool" where
  "second_node_test s tree_nodes negative_gradient1_error positive_gradient1_error
     negative_gradient3_error positive_gradient3_error num_ik_pairs relative_error
     total_n_minus_one_num_tuples =
   (case tree_nodes of (n0, n1, n2) \<Rightarrow>
      ((negative_gradient1_error + negative_gradient3_error) \<le>
       (relative_error / total_n_minus_one_num_tuples) *
       fabs (negative_gradient1_u (stat (s n1)) +
             postponed_negative_gradient1_u (stat (s n1))))
      \<and>
      ((positive_gradient1_error + positive_gradient3_error) \<le>
       (relative_error / total_n_minus_one_num_tuples) *
       (positive_gradient1_l (stat (s n1)) +
        postponed_positive_gradient1_l (stat (s n1))))
      \<and>
      (of_index (count (s n2)) *
       l1_norm_coordinate_sum' (stat (s n0)) *
       negative_gradient1_error +
       of_index (count (s n0)) *
       l1_norm_coordinate_sum' (stat (s n2)) *
       negative_gradient3_error \<le>
       relative_error * num_ik_pairs / total_n_minus_one_num_tuples *
       (L1Norm' (negative_gradient2_u (stat (s n1))) +
        L1Norm' (postponed_negative_gradient2_u (stat (s n1)))))
      \<and>
      (of_index (count (s n2)) * l1_norm_coordinate_sum' (stat (s n0)) *
       positive_gradient1_error +
       of_index (count (s n0)) * l1_norm_coordinate_sum' (stat (s n2)) *
       positive_gradient3_error \<le>
       relative_error * num_ik_pairs / total_n_minus_one_num_tuples *
       (L1Norm' (positive_gradient2_l (stat (s n1))) +
        L1Norm' (postponed_positive_gradient2_l (stat (s n1))))))"

text \<open>
  The test of the third node (lines 288 to 316): the branch of the initialiser of
  \<^verbatim>\<open>third_node_prunable\<close> taken when \<^verbatim>\<open>tree_nodes[2] != tree_nodes[1]\<close>.
\<close>

definition third_node_test ::
  "'b store \<Rightarrow> tree_nodes \<Rightarrow> double \<Rightarrow> double \<Rightarrow> double \<Rightarrow> double \<Rightarrow>
   double \<Rightarrow> double \<Rightarrow> double \<Rightarrow> bool" where
  "third_node_test s tree_nodes negative_gradient2_error positive_gradient2_error
     negative_gradient3_error positive_gradient3_error num_ij_pairs relative_error
     total_n_minus_one_num_tuples =
   (case tree_nodes of (n0, n1, n2) \<Rightarrow>
      ((negative_gradient2_error + negative_gradient3_error) \<le>
       (relative_error / total_n_minus_one_num_tuples) *
       fabs (negative_gradient1_u (stat (s n2)) +
             postponed_negative_gradient1_u (stat (s n2))))
      \<and>
      ((positive_gradient2_error + positive_gradient3_error) \<le>
       (relative_error / total_n_minus_one_num_tuples) *
       (positive_gradient1_l (stat (s n2)) +
        postponed_positive_gradient1_l (stat (s n2))))
      \<and>
      (of_index (count (s n1)) *
       l1_norm_coordinate_sum' (stat (s n0)) *
       negative_gradient2_error +
       of_index (count (s n0)) *
       l1_norm_coordinate_sum' (stat (s n1)) *
       negative_gradient3_error \<le>
       relative_error * num_ij_pairs / total_n_minus_one_num_tuples *
       (L1Norm' (negative_gradient2_u (stat (s n2))) +
        L1Norm' (postponed_negative_gradient2_u (stat (s n2)))))
      \<and>
      (of_index (count (s n1)) *
       l1_norm_coordinate_sum' (stat (s n0)) *
       positive_gradient2_error +
       of_index (count (s n0)) *
       l1_norm_coordinate_sum' (stat (s n1)) *
       positive_gradient3_error \<le>
       relative_error * num_ij_pairs / total_n_minus_one_num_tuples *
       (L1Norm' (positive_gradient2_l (stat (s n2))) +
        L1Norm' (postponed_positive_gradient2_l (stat (s n2))))))"

text \<open>
  \<^verbatim>\<open>Prunable_\<close>, with its two early returns ("Short circuit prunable decision...").
\<close>

definition Prunable' ::
  "'b store \<Rightarrow> tree_nodes \<Rightarrow> double \<Rightarrow> double \<Rightarrow> double \<Rightarrow> double \<Rightarrow>
   double \<Rightarrow> double \<Rightarrow> double \<Rightarrow> double \<Rightarrow> double \<Rightarrow> double \<Rightarrow> double \<Rightarrow> bool" where
  "Prunable' s tree_nodes negative_gradient1_error positive_gradient1_error
     negative_gradient2_error positive_gradient2_error negative_gradient3_error
     positive_gradient3_error num_jk_pairs num_ik_pairs num_ij_pairs relative_error
     total_n_minus_one_num_tuples =
   (case tree_nodes of (n0, n1, n2) \<Rightarrow>
    let first_node_prunable' =
          first_node_prunable s tree_nodes negative_gradient1_error
            positive_gradient1_error negative_gradient2_error positive_gradient2_error
            num_jk_pairs relative_error total_n_minus_one_num_tuples
    in
    if \<not> first_node_prunable' then False
    else
      let second_node_prunable =
            (if n1 = n0 then first_node_prunable'
             else second_node_test s tree_nodes negative_gradient1_error
                    positive_gradient1_error negative_gradient3_error
                    positive_gradient3_error num_ik_pairs relative_error
                    total_n_minus_one_num_tuples)
      in
      if \<not> second_node_prunable then False
      else
        let third_node_prunable =
              (if n2 = n1 then second_node_prunable
               else third_node_test s tree_nodes negative_gradient2_error
                      positive_gradient2_error negative_gradient3_error
                      positive_gradient3_error num_ij_pairs relative_error
                      total_n_minus_one_num_tuples)
        in third_node_prunable)"

text \<open>
  The statistics that the budgets of \<^verbatim>\<open>Prunable_\<close> read are finite numbers (none is NaN or
  infinite): a hypothesis of the monotonicity theorem below.
\<close>

definition finite_budget :: "Statistics \<Rightarrow> bool" where
  "finite_budget st =
     (is_finite (negative_gradient1_u st) \<and> is_finite (postponed_negative_gradient1_u st) \<and>
      is_finite (positive_gradient1_l st) \<and> is_finite (postponed_positive_gradient1_l st) \<and>
      list_all is_finite (negative_gradient2_u st) \<and>
      list_all is_finite (postponed_negative_gradient2_u st) \<and>
      list_all is_finite (positive_gradient2_l st) \<and>
      list_all is_finite (postponed_positive_gradient2_l st))"

subsection \<open>The two error models\<close>

text \<open>
  The six results of each are the reference parameters \<^verbatim>\<open>negative_gradient1_error\<close>,
  \<^verbatim>\<open>positive_gradient1_error\<close>, \<^verbatim>\<open>negative_gradient2_error\<close>, \<^verbatim>\<open>positive_gradient2_error\<close>,
  \<^verbatim>\<open>negative_gradient3_error\<close> and \<^verbatim>\<open>positive_gradient3_error\<close>, in this order.
\<close>

definition ComputeGradientComponentError' ::
  "double \<Rightarrow> double \<Rightarrow> double \<Rightarrow> double \<Rightarrow> double \<Rightarrow> double \<Rightarrow>
   double \<Rightarrow> double \<Rightarrow> double \<Rightarrow> double \<Rightarrow> double \<Rightarrow> double \<Rightarrow>
   double \<times> double \<times> double \<times> double \<times> double \<times> double" where
  "ComputeGradientComponentError' min_negative_gradient1 max_negative_gradient1
     min_positive_gradient1 max_positive_gradient1 min_negative_gradient2
     max_negative_gradient2 min_positive_gradient2 max_positive_gradient2
     min_negative_gradient3 max_negative_gradient3 min_positive_gradient3
     max_positive_gradient3 =
   ((max_negative_gradient1 - min_negative_gradient1) * Fin 0.5,
    (max_positive_gradient1 - min_positive_gradient1) * Fin 0.5,
    (max_negative_gradient2 - min_negative_gradient2) * Fin 0.5,
    (max_positive_gradient2 - min_positive_gradient2) * Fin 0.5,
    (max_negative_gradient3 - min_negative_gradient3) * Fin 0.5,
    (max_positive_gradient3 - min_positive_gradient3) * Fin 0.5)"

text \<open>
  One component of \<^verbatim>\<open>ComputeMonteCarloGradientComponentError_\<close>: the variance component,
  then "the actual confidence interval range".
\<close>

definition MonteCarlo_component_error :: "double \<Rightarrow> double \<Rightarrow> int \<Rightarrow> double \<Rightarrow> double" where
  "MonteCarlo_component_error gradient_sum gradient_squared_sum num_samples z_score =
   (let inverse_factor = Fin 1 / (of_index num_samples - Fin 1);
        gradient_error =
          inverse_factor * (gradient_squared_sum -
                            gradient_sum * gradient_sum / of_index num_samples)
    in z_score * dsqrt gradient_error)"

definition ComputeMonteCarloGradientComponentError' ::
  "double \<Rightarrow> double \<Rightarrow> double \<Rightarrow> double \<Rightarrow> double \<Rightarrow> double \<Rightarrow>
   double \<Rightarrow> double \<Rightarrow> double \<Rightarrow> double \<Rightarrow> double \<Rightarrow> double \<Rightarrow> int \<Rightarrow> double \<Rightarrow>
   double \<times> double \<times> double \<times> double \<times> double \<times> double" where
  "ComputeMonteCarloGradientComponentError' negative_gradient1_sum
     negative_gradient1_squared_sum positive_gradient1_sum positive_gradient1_squared_sum
     negative_gradient2_sum negative_gradient2_squared_sum positive_gradient2_sum
     positive_gradient2_squared_sum negative_gradient3_sum negative_gradient3_squared_sum
     positive_gradient3_sum positive_gradient3_squared_sum num_samples z_score =
   (MonteCarlo_component_error negative_gradient1_sum negative_gradient1_squared_sum
      num_samples z_score,
    MonteCarlo_component_error positive_gradient1_sum positive_gradient1_squared_sum
      num_samples z_score,
    MonteCarlo_component_error negative_gradient2_sum negative_gradient2_squared_sum
      num_samples z_score,
    MonteCarlo_component_error positive_gradient2_sum positive_gradient2_squared_sum
      num_samples z_score,
    MonteCarlo_component_error negative_gradient3_sum negative_gradient3_squared_sum
      num_samples z_score,
    MonteCarlo_component_error positive_gradient3_sum positive_gradient3_squared_sum
      num_samples z_score)"


subsection \<open>The kernel's members, distances and gradients\<close>

text \<open>
  fastlib's \<^verbatim>\<open>Matrix\<close> with \<^verbatim>\<open>get\<close>, \<^verbatim>\<open>set\<close>, \<^verbatim>\<open>n_rows\<close> and \<^verbatim>\<open>GetColumnPtr\<close> (a column is
  a point), and \<^verbatim>\<open>ArrayList<index_t>\<close> as a function from positions to entries.
\<close>

record Matrix =
  n_rows :: nat
  n_cols :: nat
  elems :: "int \<Rightarrow> int \<Rightarrow> double"

definition Matrix_get :: "Matrix \<Rightarrow> int \<Rightarrow> int \<Rightarrow> double" where
  "Matrix_get m r c = elems m r c"

definition Matrix_set :: "Matrix \<Rightarrow> int \<Rightarrow> int \<Rightarrow> double \<Rightarrow> Matrix" where
  "Matrix_set m r c v = m\<lparr>elems := (elems m)(r := (elems m r)(c := v))\<rparr>"

definition GetColumnPtr :: "Matrix \<Rightarrow> int \<Rightarrow> (int \<Rightarrow> double)" where
  "GetColumnPtr m c = (\<lambda>r. elems m r c)"

type_synonym index_list = "int \<Rightarrow> int"

text \<open>
  The private members \<^verbatim>\<open>distmat_\<close> and \<^verbatim>\<open>index_orders_\<close>. A name that ends with an
  underscore in the source ends with a prime here.
\<close>

record Kernel =
  distmat' :: Matrix
  index_orders' :: index_list

text \<open>
  Modelled from the spec: \<^verbatim>\<open>la::DistanceSqEuclidean(length, a, b)\<close> is fastlib's, not under
  src. It is the "exact squared distance" of two points, the sum of the squared
  differences of their \<open>length\<close> coordinates.
\<close>

definition DistanceSqEuclidean :: "nat \<Rightarrow> (int \<Rightarrow> double) \<Rightarrow> (int \<Rightarrow> double) \<Rightarrow> double" where
  "DistanceSqEuclidean len a b =
     foldl (\<lambda>sum k. sum + (a (int k) - b (int k)) * (a (int k) - b (int k))) (Fin 0) [0..<len]"

fun node_at :: "tree_nodes \<Rightarrow> int \<Rightarrow> addr" where
  "node_at (n0, n1, n2) i = (if i = 0 then n0 else if i = 1 then n1 else n2)"

text \<open>
  The pairs \<open>(i, j)\<close> the two nested loops run through, in their order, for the three
  entries of the list: \<^verbatim>\<open>for(i = 0; i < 3 - 1; i++) for(j = i + 1; j < 3; j++)\<close>.
\<close>

definition index_pairs :: "(int \<times> int) list" where
  "index_pairs = [(0, 1), (0, 2), (1, 2)]"

text \<open>\<^verbatim>\<open>EvalMinMaxSquaredDistances(ArrayList<TTree *> &tree_nodes)\<close>\<close>

definition EvalMinMaxSquaredDistances_nodes ::
  "('b \<Rightarrow> 'b \<Rightarrow> double) \<Rightarrow> ('b \<Rightarrow> 'b \<Rightarrow> double) \<Rightarrow> 'b store \<Rightarrow> tree_nodes \<Rightarrow>
   Kernel \<Rightarrow> Kernel" where
  "EvalMinMaxSquaredDistances_nodes MinDistanceSq MaxDistanceSq s tree_nodes k =
     fold (\<lambda>(i, j) k.
        let node_i_bound = bound (s (node_at tree_nodes i));
            node_j_bound = bound (s (node_at tree_nodes j));
            min_squared_distance = MinDistanceSq node_i_bound node_j_bound;
            max_squared_distance = MaxDistanceSq node_i_bound node_j_bound;
            k = k\<lparr>distmat' := Matrix_set (distmat' k) i j min_squared_distance\<rparr>;
            k = k\<lparr>distmat' := Matrix_set (distmat' k) j i max_squared_distance\<rparr>
        in k) index_pairs k"

text \<open>\<^verbatim>\<open>EvalMinMaxSquaredDistances(const Matrix &data, const ArrayList<index_t> &indices)\<close>\<close>

definition EvalMinMaxSquaredDistances_points :: "Matrix \<Rightarrow> index_list \<Rightarrow> Kernel \<Rightarrow> Kernel" where
  "EvalMinMaxSquaredDistances_points data indices k =
     fold (\<lambda>(i, j) k.
        let point_i = GetColumnPtr data (indices i);
            point_j = GetColumnPtr data (indices j);
            squared_distance = DistanceSqEuclidean (n_rows data) point_i point_j;
            k = k\<lparr>distmat' := Matrix_set (distmat' k) i j squared_distance\<rparr>;
            k = k\<lparr>distmat' := Matrix_set (distmat' k) j i squared_distance\<rparr>
        in k) index_pairs k"

text \<open>
  \<^verbatim>\<open>gradient_\<close>. The four results are \<^verbatim>\<open>minimum_negative_gradient\<close>,
  \<^verbatim>\<open>*maximum_negative_gradient\<close>, \<^verbatim>\<open>minimum_positive_gradient\<close> and
  \<^verbatim>\<open>*maximum_positive_gradient\<close>. A caller that passes a null pointer for a maximum does
  not receive it and drops that component of the result.
\<close>

definition gradient' :: "Matrix \<Rightarrow> index_list \<Rightarrow> double \<times> double \<times> double \<times> double" where
  "gradient' distmat index_orders =
   (let min_index1 = min (index_orders 0) (index_orders 1);
        max_index1 = max (index_orders 0) (index_orders 1);
        min_dsqd1 = Matrix_get distmat min_index1 max_index1;
        min_dist1 = dsqrt min_dsqd1;
        min_dqrt1 = Sqr min_dsqd1;
        min_dsix1 = min_dsqd1 * min_dqrt1;

        max_dsqd1 = Matrix_get distmat max_index1 min_index1;
        max_dist1 = dsqrt max_dsqd1;
        max_dqrt1 = Sqr max_dsqd1;
        max_dsix1 = max_dsqd1 * max_dqrt1;

        min_index2 = min (index_orders 0) (index_orders 2);
        max_index2 = max (index_orders 0) (index_orders 2);
        min_dsqd2 = Matrix_get distmat min_index2 max_index2;
        min_dist2 = dsqrt min_dsqd2;
        min_dcub2 = min_dsqd2 * min_dist2;
        min_dqui2 = min_dsqd2 * min_dcub2;

        max_dsqd2 = Matrix_get distmat max_index2 min_index2;
        max_dist2 = dsqrt max_dsqd2;
        max_dcub2 = max_dsqd2 * max_dist2;
        max_dqui2 = max_dsqd2 * max_dcub2;

        min_index3 = min (index_orders 1) (index_orders 2);
        max_index3 = max (index_orders 1) (index_orders 2);
        min_dsqd3 = Matrix_get distmat min_index3 max_index3;
        min_dist3 = dsqrt min_dsqd3;
        min_dcub3 = min_dsqd3 * min_dist3;
        min_dqui3 = min_dsqd3 * min_dcub3;

        max_dsqd3 = Matrix_get distmat max_index3 min_index3;
        max_dist3 = dsqrt max_dsqd3;
        max_dcub3 = max_dsqd3 * max_dist3;
        max_dqui3 = max_dsqd3 * max_dcub3;

        min_common_factor = Fin 3 * AXILROD_TELLER_COEFF / (Fin 8 * max_dist1);
        max_common_factor = Fin 3 * AXILROD_TELLER_COEFF / (Fin 8 * min_dist1);

        minimum_negative_gradient = max_common_factor *
          (Fin (- 8) / (min_dqrt1 * min_dcub2 * min_dcub3)
           - Fin 1 / (min_dqui2 * min_dqui3)
           - Fin 1 / (min_dsqd1 * min_dcub2 * min_dqui3)
           - Fin 1 / (min_dsqd1 * min_dqui2 * min_dcub3)
           - Fin 3 / (min_dqrt1 * min_dist2 * min_dqui3)
           - Fin 3 / (min_dqrt1 * min_dqui2 * min_dist3)
           - Fin 5 / (min_dsix1 * min_dist2 * min_dcub3)
           - Fin 5 / (min_dsix1 * min_dcub2 * min_dist3));

        maximum_negative_gradient = min_common_factor *
          (Fin (- 8) / (max_dqrt1 * max_dcub2 * max_dcub3)
           - Fin 1 / (max_dqui2 * max_dqui3)
           - Fin 1 / (max_dsqd1 * max_dcub2 * max_dqui3)
           - Fin 1 / (max_dsqd1 * max_dqui2 * max_dcub3)
           - Fin 3 / (max_dqrt1 * max_dist2 * max_dqui3)
           - Fin 3 / (max_dqrt1 * max_dqui2 * max_dist3)
           - Fin 5 / (max_dsix1 * max_dist2 * max_dcub3)
           - Fin 5 / (max_dsix1 * max_dcub2 * max_dist3));

        minimum_positive_gradient = min_common_factor *
          (Fin 5 * min_dist2 / (max_dsix1 * max_dqui3) +
           Fin 5 * min_dist3 / (max_dsix1 * max_dqui2) +
           Fin 6 / (max_dqrt1 * max_dcub2 * max_dcub3));

        maximum_positive_gradient = max_common_factor *
          (Fin 5 * max_dist2 / (min_dsix1 * min_dqui3) +
           Fin 5 * max_dist3 / (min_dsix1 * min_dqui2) +
           Fin 6 / (min_dqrt1 * min_dcub2 * min_dcub3))
    in (minimum_negative_gradient, maximum_negative_gradient,
        minimum_positive_gradient, maximum_positive_gradient))"

text \<open>
  The arithmetic of \<^verbatim>\<open>gradient_\<close> as a function of the six squared distances it reads
  from \<^verbatim>\<open>distmat_\<close>, for use in proofs: \<open>gradient'_core\<close> below shows that \<^verbatim>\<open>gradient_\<close>
  is this function of the six entries.
\<close>

definition gradient_core ::
  "double \<Rightarrow> double \<Rightarrow> double \<Rightarrow> double \<Rightarrow> double \<Rightarrow> double \<Rightarrow>
   double \<times> double \<times> double \<times> double" where
  "gradient_core min_dsqd1 max_dsqd1 min_dsqd2 max_dsqd2 min_dsqd3 max_dsqd3 =
   (let min_dist1 = dsqrt min_dsqd1;
        min_dqrt1 = Sqr min_dsqd1;
        min_dsix1 = min_dsqd1 * min_dqrt1;
        max_dist1 = dsqrt max_dsqd1;
        max_dqrt1 = Sqr max_dsqd1;
        max_dsix1 = max_dsqd1 * max_dqrt1;
        min_dist2 = dsqrt min_dsqd2;
        min_dcub2 = min_dsqd2 * min_dist2;
        min_dqui2 = min_dsqd2 * min_dcub2;
        max_dist2 = dsqrt max_dsqd2;
        max_dcub2 = max_dsqd2 * max_dist2;
        max_dqui2 = max_dsqd2 * max_dcub2;
        min_dist3 = dsqrt min_dsqd3;
        min_dcub3 = min_dsqd3 * min_dist3;
        min_dqui3 = min_dsqd3 * min_dcub3;
        max_dist3 = dsqrt max_dsqd3;
        max_dcub3 = max_dsqd3 * max_dist3;
        max_dqui3 = max_dsqd3 * max_dcub3;

        min_common_factor = Fin 3 * AXILROD_TELLER_COEFF / (Fin 8 * max_dist1);
        max_common_factor = Fin 3 * AXILROD_TELLER_COEFF / (Fin 8 * min_dist1);

        minimum_negative_gradient = max_common_factor *
          (Fin (- 8) / (min_dqrt1 * min_dcub2 * min_dcub3)
           - Fin 1 / (min_dqui2 * min_dqui3)
           - Fin 1 / (min_dsqd1 * min_dcub2 * min_dqui3)
           - Fin 1 / (min_dsqd1 * min_dqui2 * min_dcub3)
           - Fin 3 / (min_dqrt1 * min_dist2 * min_dqui3)
           - Fin 3 / (min_dqrt1 * min_dqui2 * min_dist3)
           - Fin 5 / (min_dsix1 * min_dist2 * min_dcub3)
           - Fin 5 / (min_dsix1 * min_dcub2 * min_dist3));

        maximum_negative_gradient = min_common_factor *
          (Fin (- 8) / (max_dqrt1 * max_dcub2 * max_dcub3)
           - Fin 1 / (max_dqui2 * max_dqui3)
           - Fin 1 / (max_dsqd1 * max_dcub2 * max_dqui3)
           - Fin 1 / (max_dsqd1 * max_dqui2 * max_dcub3)
           - Fin 3 / (max_dqrt1 * max_dist2 * max_dqui3)
           - Fin 3 / (max_dqrt1 * max_dqui2 * max_dist3)
           - Fin 5 / (max_dsix1 * max_dist2 * max_dcub3)
           - Fin 5 / (max_dsix1 * max_dcub2 * max_dist3));

        minimum_positive_gradient = min_common_factor *
          (Fin 5 * min_dist2 / (max_dsix1 * max_dqui3) +
           Fin 5 * min_dist3 / (max_dsix1 * max_dqui2) +
           Fin 6 / (max_dqrt1 * max_dcub2 * max_dcub3));

        maximum_positive_gradient = max_common_factor *
          (Fin 5 * max_dist2 / (min_dsix1 * min_dqui3) +
           Fin 5 * max_dist3 / (min_dsix1 * min_dqui2) +
           Fin 6 / (min_dqrt1 * min_dcub2 * min_dcub3))
    in (minimum_negative_gradient, maximum_negative_gradient,
        minimum_positive_gradient, maximum_positive_gradient))"

text \<open>
  \<^verbatim>\<open>EvalGradients\<close>: it sets \<^verbatim>\<open>index_orders_\<close> three times and calls \<^verbatim>\<open>gradient_\<close> on
  \<^verbatim>\<open>distmat_\<close> after each (its parameter \<^verbatim>\<open>dsqd_matrix\<close> is not read). The result is
  the three quadruples of gradient1, gradient2 and gradient3, and the kernel it leaves.
\<close>

definition EvalGradients ::
  "Kernel \<Rightarrow> ((double \<times> double \<times> double \<times> double) \<times> (double \<times> double \<times> double \<times> double) \<times>
              (double \<times> double \<times> double \<times> double)) \<times> Kernel" where
  "EvalGradients k =
   (let k = k\<lparr>index_orders' := (index_orders' k)(0 := 0)\<rparr>;
        k = k\<lparr>index_orders' := (index_orders' k)(1 := 1)\<rparr>;
        k = k\<lparr>index_orders' := (index_orders' k)(2 := 2)\<rparr>;
        gradient1 = gradient' (distmat' k) (index_orders' k);
        k = k\<lparr>index_orders' := (index_orders' k)(0 := 0)\<rparr>;
        k = k\<lparr>index_orders' := (index_orders' k)(1 := 2)\<rparr>;
        k = k\<lparr>index_orders' := (index_orders' k)(2 := 1)\<rparr>;
        gradient2 = gradient' (distmat' k) (index_orders' k);
        k = k\<lparr>index_orders' := (index_orders' k)(0 := 2)\<rparr>;
        k = k\<lparr>index_orders' := (index_orders' k)(1 := 1)\<rparr>;
        k = k\<lparr>index_orders' := (index_orders' k)(2 := 0)\<rparr>;
        gradient3 = gradient' (distmat' k) (index_orders' k)
    in ((gradient1, gradient2, gradient3), k))"


subsection \<open>Eval on three tree nodes\<close>

text \<open>
  The pair counts \<^verbatim>\<open>Eval\<close> computes (lines 1022 to 1024) and passes to \<^verbatim>\<open>Prunable_\<close> and
  \<^verbatim>\<open>Prune_\<close>, as \<^verbatim>\<open>num_jk_pairs\<close>, \<^verbatim>\<open>num_ik_pairs\<close> and \<^verbatim>\<open>num_ij_pairs\<close>. Each is a
  product of two counts computed in \<^verbatim>\<open>index_t\<close>, converted to double by the
  initialisation.
\<close>

fun Eval_pair_counts :: "'b store \<Rightarrow> tree_nodes \<Rightarrow> double \<times> double \<times> double" where
  "Eval_pair_counts s (n0, n1, n2) =
     (let num_ik_pairs = of_index (index_t_wrap (count (s n0) * count (s n2)));
          num_ij_pairs = of_index (index_t_wrap (count (s n0) * count (s n1)));
          num_jk_pairs = of_index (index_t_wrap (count (s n1) * count (s n2)))
      in (num_jk_pairs, num_ik_pairs, num_ij_pairs))"

text \<open>
  \<^verbatim>\<open>bool Eval(data, indices, tree_nodes, relative_error, z_score,
  total_n_minus_one_num_tuples)\<close>, "Vanilla finite-difference component-wise relative
  error pruning". It reads neither \<^verbatim>\<open>data\<close> nor \<^verbatim>\<open>indices\<close> and writes the kernel's
  members and, through \<^verbatim>\<open>Prune_\<close>, the nodes: the result is the returned flag, the kernel
  and the store it leaves.
\<close>

text \<open>
  The condition of lines 990 to 1001: "If any of the components is computed to be NaN's or
  Inf's, then do not attempt to approximate."
\<close>

definition components_nan_or_inf ::
  "double \<Rightarrow> double \<Rightarrow> double \<Rightarrow> double \<Rightarrow> double \<Rightarrow> double \<Rightarrow>
   double \<Rightarrow> double \<Rightarrow> double \<Rightarrow> double \<Rightarrow> double \<Rightarrow> double \<Rightarrow> bool" where
  "components_nan_or_inf min_negative_gradient1 max_negative_gradient1
     min_positive_gradient1 max_positive_gradient1 min_negative_gradient2
     max_negative_gradient2 min_positive_gradient2 max_positive_gradient2
     min_negative_gradient3 max_negative_gradient3 min_positive_gradient3
     max_positive_gradient3 =
    (isnan min_negative_gradient1 \<or> isnan max_negative_gradient1 \<or>
     isnan min_positive_gradient1 \<or> isnan max_positive_gradient1 \<or>
     isnan min_negative_gradient2 \<or> isnan max_negative_gradient2 \<or>
     isnan min_positive_gradient2 \<or> isnan max_positive_gradient2 \<or>
     isnan min_negative_gradient3 \<or> isnan max_negative_gradient3 \<or>
     isnan min_positive_gradient3 \<or> isnan max_positive_gradient3 \<or>
     isinf min_negative_gradient1 \<or> isinf max_negative_gradient1 \<or>
     isinf min_positive_gradient1 \<or> isinf max_positive_gradient1 \<or>
     isinf min_negative_gradient2 \<or> isinf max_negative_gradient2 \<or>
     isinf min_positive_gradient2 \<or> isinf max_positive_gradient2 \<or>
     isinf min_negative_gradient3 \<or> isinf max_negative_gradient3 \<or>
     isinf min_positive_gradient3 \<or> isinf max_positive_gradient3)"

text \<open>The twelve gradient bounds \<^verbatim>\<open>EvalGradients\<close> computes, as a list.\<close>

fun gradient_bound_list ::
  "(double \<times> double \<times> double \<times> double) \<times> (double \<times> double \<times> double \<times> double) \<times>
   (double \<times> double \<times> double \<times> double) \<Rightarrow> double list" where
  "gradient_bound_list ((a1, b1, c1, d1), (a2, b2, c2, d2), (a3, b3, c3, d3)) =
     [a1, b1, c1, d1, a2, b2, c2, d2, a3, b3, c3, d3]"

definition Eval ::
  "('b \<Rightarrow> 'b \<Rightarrow> double) \<Rightarrow> ('b \<Rightarrow> 'b \<Rightarrow> double) \<Rightarrow> Kernel \<Rightarrow> 'b store \<Rightarrow> tree_nodes \<Rightarrow>
   double \<Rightarrow> double \<Rightarrow> double \<Rightarrow> bool \<times> Kernel \<times> 'b store" where
  "Eval MinDistanceSq MaxDistanceSq k s tree_nodes relative_error z_score
     total_n_minus_one_num_tuples =
   (case tree_nodes of (n0, n1, n2) \<Rightarrow>
    let k = EvalMinMaxSquaredDistances_nodes MinDistanceSq MaxDistanceSq s tree_nodes k
    in
    if list_ex (\<lambda>(i, j). deq (Matrix_get (distmat' k) i j) (Fin 0)) index_pairs
    then (False, k, s)
    else
      (case EvalGradients k of
        (((min_negative_gradient1, max_negative_gradient1,
           min_positive_gradient1, max_positive_gradient1),
          (min_negative_gradient2, max_negative_gradient2,
           min_positive_gradient2, max_positive_gradient2),
          (min_negative_gradient3, max_negative_gradient3,
           min_positive_gradient3, max_positive_gradient3)), k) \<Rightarrow>
       if components_nan_or_inf
            min_negative_gradient1 max_negative_gradient1
            min_positive_gradient1 max_positive_gradient1
            min_negative_gradient2 max_negative_gradient2
            min_positive_gradient2 max_positive_gradient2
            min_negative_gradient3 max_negative_gradient3
            min_positive_gradient3 max_positive_gradient3
       then (False, k, s)
       else
         (case ComputeGradientComponentError'
                 min_negative_gradient1 max_negative_gradient1
                 min_positive_gradient1 max_positive_gradient1
                 min_negative_gradient2 max_negative_gradient2
                 min_positive_gradient2 max_positive_gradient2
                 min_negative_gradient3 max_negative_gradient3
                 min_positive_gradient3 max_positive_gradient3 of
           (negative_gradient1_error, positive_gradient1_error,
            negative_gradient2_error, positive_gradient2_error,
            negative_gradient3_error, positive_gradient3_error) \<Rightarrow>
          (case Eval_pair_counts s tree_nodes of
            (num_jk_pairs, num_ik_pairs, num_ij_pairs) \<Rightarrow>
          let prunable = Prunable' s tree_nodes negative_gradient1_error
                           positive_gradient1_error negative_gradient2_error
                           positive_gradient2_error negative_gradient3_error
                           positive_gradient3_error num_jk_pairs num_ik_pairs
                           num_ij_pairs relative_error
                           total_n_minus_one_num_tuples
          in
          if prunable then
            (prunable, k,
             Prune' s tree_nodes min_negative_gradient1 max_negative_gradient1
               min_positive_gradient1 max_positive_gradient1
               min_negative_gradient2 max_negative_gradient2
               min_positive_gradient2 max_positive_gradient2
               min_negative_gradient3 max_negative_gradient3
               min_positive_gradient3 max_positive_gradient3 num_jk_pairs
               num_ik_pairs num_ij_pairs)
          else (prunable, k, s)))))"

subsection \<open>MonteCarloEval\<close>

text \<open>
  The running order statistics, sum and squared sum of one gradient component: for the
  negative part of gradient 1 these are the locals \<^verbatim>\<open>min_negative_gradient1\<close>,
  \<^verbatim>\<open>max_negative_gradient1\<close>, \<^verbatim>\<open>negative_gradient1_sum\<close> and
  \<^verbatim>\<open>negative_gradient1_squared_sum\<close>, and so on for the other five components.
\<close>

record running =
  run_min :: double
  run_max :: double
  run_sum :: double
  run_squared_sum :: double

definition UpdateStatistics_component :: "double \<Rightarrow> running \<Rightarrow> running" where
  "UpdateStatistics_component gradient r =
     r\<lparr>run_min := std_min (run_min r) gradient,
       run_max := std_max (run_max r) gradient,
       run_sum := run_sum r + gradient,
       run_squared_sum := run_squared_sum r + gradient * gradient\<rparr>"

text \<open>The locals of \<^verbatim>\<open>MonteCarloEval\<close> that live across the iterations of its loop.\<close>

record MonteCarlo_locals =
  prunable :: bool
  should_try :: bool
  current_num_samples :: int
  num_sample_trials_remaining :: int
  negative_gradient1_run :: running
  positive_gradient1_run :: running
  negative_gradient2_run :: running
  positive_gradient2_run :: running
  negative_gradient3_run :: running
  positive_gradient3_run :: running
  sampled_indices :: index_list
  scratch :: Kernel

text \<open>\<^verbatim>\<open>UpdateStatistics_\<close> on the six components.\<close>

definition UpdateStatistics' ::
  "double \<Rightarrow> double \<Rightarrow> double \<Rightarrow> double \<Rightarrow> double \<Rightarrow> double \<Rightarrow>
   MonteCarlo_locals \<Rightarrow> MonteCarlo_locals" where
  "UpdateStatistics' negative_gradient1 positive_gradient1 negative_gradient2
     positive_gradient2 negative_gradient3 positive_gradient3 st =
   st\<lparr>negative_gradient1_run :=
        UpdateStatistics_component negative_gradient1 (negative_gradient1_run st),
      positive_gradient1_run :=
        UpdateStatistics_component positive_gradient1 (positive_gradient1_run st),
      negative_gradient2_run :=
        UpdateStatistics_component negative_gradient2 (negative_gradient2_run st),
      positive_gradient2_run :=
        UpdateStatistics_component positive_gradient2 (positive_gradient2_run st),
      negative_gradient3_run :=
        UpdateStatistics_component negative_gradient3 (negative_gradient3_run st),
      positive_gradient3_run :=
        UpdateStatistics_component positive_gradient3 (positive_gradient3_run st)\<rparr>"

text \<open>
  The errors the loop computes when a batch is complete (lines 925 to 943), as a function
  of the locals. The code computes them into locals of the block and reads them nowhere.
\<close>

definition batch_errors ::
  "MonteCarlo_locals \<Rightarrow> double \<Rightarrow> double \<times> double \<times> double \<times> double \<times> double \<times> double" where
  "batch_errors st z_score =
     ComputeMonteCarloGradientComponentError'
       (run_sum (negative_gradient1_run st)) (run_squared_sum (negative_gradient1_run st))
       (run_sum (positive_gradient1_run st)) (run_squared_sum (positive_gradient1_run st))
       (run_sum (negative_gradient2_run st)) (run_squared_sum (negative_gradient2_run st))
       (run_sum (positive_gradient2_run st)) (run_squared_sum (positive_gradient2_run st))
       (run_sum (negative_gradient3_run st)) (run_squared_sum (negative_gradient3_run st))
       (run_sum (positive_gradient3_run st)) (run_squared_sum (positive_gradient3_run st))
       (current_num_samples st) z_score"

text \<open>
  One pass through the body of the \<^verbatim>\<open>do ... while\<close> loop (lines 879 to 943).
  \<^verbatim>\<open>math::RandInt\<close> is fastlib's, not under src: the triple holds the values its three
  calls return in this pass. A rejected draw leaves the body by \<^verbatim>\<open>continue\<close>.
\<close>

definition MonteCarlo_body ::
  "Matrix \<Rightarrow> double \<Rightarrow> MonteCarlo_locals \<Rightarrow> int \<times> int \<times> int \<Rightarrow> MonteCarlo_locals" where
  "MonteCarlo_body data z_score st draw =
   (case draw of (r0, r1, r2) \<Rightarrow>
    let st = st\<lparr>sampled_indices := (sampled_indices st)(0 := r0)\<rparr>;
        st = st\<lparr>sampled_indices := (sampled_indices st)(1 := r1)\<rparr>;
        st = st\<lparr>sampled_indices := (sampled_indices st)(2 := r2)\<rparr>
    in
    if \<not> (sampled_indices st 0 < sampled_indices st 1 \<and>
            sampled_indices st 1 < sampled_indices st 2)
    then st
    else
      (let st = st\<lparr>scratch :=
                   EvalMinMaxSquaredDistances_points data (sampled_indices st) (scratch st)\<rparr>
       in
       case EvalGradients (scratch st) of
         (((negative_gradient1, _, positive_gradient1, _),
           (negative_gradient2, _, positive_gradient2, _),
           (negative_gradient3, _, positive_gradient3, _)), k) \<Rightarrow>
         let st = st\<lparr>scratch := k\<rparr>;
             st = UpdateStatistics' negative_gradient1 positive_gradient1
                    negative_gradient2 positive_gradient2 negative_gradient3
                    positive_gradient3 st;
             st = st\<lparr>num_sample_trials_remaining := num_sample_trials_remaining st - 1\<rparr>;
             st = st\<lparr>current_num_samples := current_num_samples st + 1\<rparr>;
             st = (if num_sample_trials_remaining st = 0
                   then (let errors = batch_errors st z_score in st)
                   else st)
         in st))"

text \<open>
  The draws the body accepts ("Continue until a valid sample is chosen"): the three
  indices are strictly increasing.
\<close>

fun valid_sample :: "int \<times> int \<times> int \<Rightarrow> bool" where
  "valid_sample (r0, r1, r2) = (r0 < r1 \<and> r1 < r2)"

text \<open>
  The loop \<^verbatim>\<open>do { ... } while(num_sample_trials_remaining > 0)\<close>: the body, then the
  condition (also after a \<^verbatim>\<open>continue\<close>). The list holds the draws of the successive
  passes. The loop ends when the condition fails; when the draws are used up before
  that, it has not ended and the result is \<open>None\<close>.
\<close>

fun MonteCarlo_loop ::
  "Matrix \<Rightarrow> double \<Rightarrow> MonteCarlo_locals \<Rightarrow> (int \<times> int \<times> int) list \<Rightarrow>
   MonteCarlo_locals option" where
  "MonteCarlo_loop data z_score st [] = None"
| "MonteCarlo_loop data z_score st (draw # draws) =
   (let st = MonteCarlo_body data z_score st draw
    in if 0 < num_sample_trials_remaining st then MonteCarlo_loop data z_score st draws
       else Some st)"

text \<open>The locals as \<^verbatim>\<open>MonteCarloEval\<close> initialises them before the loop.\<close>

definition initial_locals :: "index_list \<Rightarrow> Kernel \<Rightarrow> MonteCarlo_locals" where
  "initial_locals indices k =
   \<lparr>prunable = False, should_try = True, current_num_samples = 0,
    num_sample_trials_remaining = 25,
    negative_gradient1_run =
      \<lparr>run_min = Fin 0, run_max = - DBL_MAX, run_sum = Fin 0, run_squared_sum = Fin 0\<rparr>,
    positive_gradient1_run =
      \<lparr>run_min = DBL_MAX, run_max = Fin 0, run_sum = Fin 0, run_squared_sum = Fin 0\<rparr>,
    negative_gradient2_run =
      \<lparr>run_min = Fin 0, run_max = - DBL_MAX, run_sum = Fin 0, run_squared_sum = Fin 0\<rparr>,
    positive_gradient2_run =
      \<lparr>run_min = DBL_MAX, run_max = Fin 0, run_sum = Fin 0, run_squared_sum = Fin 0\<rparr>,
    negative_gradient3_run =
      \<lparr>run_min = Fin 0, run_max = - DBL_MAX, run_sum = Fin 0, run_squared_sum = Fin 0\<rparr>,
    positive_gradient3_run =
      \<lparr>run_min = DBL_MAX, run_max = Fin 0, run_sum = Fin 0, run_squared_sum = Fin 0\<rparr>,
    sampled_indices = indices, scratch = k\<rparr>"

text \<open>
  \<^verbatim>\<open>bool MonteCarloEval(data, indices, nodes, relative_error, z_score,
  total_n_minus_one_num_tuples)\<close>, "Tries to prune the given nodes using Monte Carlo
  sampling". The result, when the loop ends, is the returned flag, \<^verbatim>\<open>indices\<close>, the
  kernel and the store as the call leaves them.
\<close>

definition MonteCarloEval ::
  "Matrix \<Rightarrow> index_list \<Rightarrow> Kernel \<Rightarrow> 'b store \<Rightarrow> tree_nodes \<Rightarrow> double \<Rightarrow> double \<Rightarrow> double \<Rightarrow>
   (int \<times> int \<times> int) list \<Rightarrow> (bool \<times> index_list \<times> Kernel \<times> 'b store) option" where
  "MonteCarloEval data indices k s nodes relative_error z_score
     total_n_minus_one_num_tuples draws =
   (case ComputeNumTwoTuples' s nodes of (num_jk_pairs, num_ik_pairs, num_ij_pairs) \<Rightarrow>
    (case MonteCarlo_loop data z_score (initial_locals indices k) draws of
       None \<Rightarrow> None
     | Some st \<Rightarrow> Some (prunable st, sampled_indices st, scratch st, s)))"

subsection \<open>Example inputs\<close>

text \<open>
  Concrete inputs on which the theorems below are instantiated. A one-dimensional bound
  is an interval \<open>(lo, hi)\<close>, with the squared distances of the closest and of the
  farthest pair of points of two intervals.
\<close>

definition interval_MinDistanceSq :: "real \<times> real \<Rightarrow> real \<times> real \<Rightarrow> double" where
  "interval_MinDistanceSq a b =
     (let d = max 0 (max (fst b - snd a) (fst a - snd b)) in Fin (d * d))"

definition interval_MaxDistanceSq :: "real \<times> real \<Rightarrow> real \<times> real \<Rightarrow> double" where
  "interval_MaxDistanceSq a b =
     (let d = max (snd b - fst a) (snd a - fst b) in Fin (d * d))"

definition example_stat :: Statistics where
  "example_stat =
   \<lparr>negative_gradient1_u = Fin (- 1), positive_gradient1_l = Fin 1,
    negative_gradient2_u = [Fin (- 1)], positive_gradient2_l = [Fin 1],
    l1_norm_coordinate_sum' = Fin 1, coordinate_sum' = [Fin 1],
    postponed_negative_gradient1_e = Fin 0, postponed_negative_gradient1_u = Fin 0,
    postponed_positive_gradient1_l = Fin 0, postponed_positive_gradient1_e = Fin 0,
    postponed_negative_gradient2_e = [Fin 0], postponed_negative_gradient2_u = [Fin 0],
    postponed_positive_gradient2_l = [Fin 0], postponed_positive_gradient2_e = [Fin 0]\<rparr>"

text \<open>The node at address \<open>a\<close> holds two points and is bounded by \<open>[3a, 3a + 1]\<close>.\<close>

definition line_store :: "(real \<times> real) store" where
  "line_store a =
     \<lparr>count = 2, begin_index = 2 * int a, end_index = 2 * int a + 2,
      bound = (3 * real a, 3 * real a + 1), stat = example_stat\<rparr>"

text \<open>A store whose nodes hold three points each, with a bound type of one value.\<close>

definition unit_store :: "unit store" where
  "unit_store a =
     \<lparr>count = 3, begin_index = 0, end_index = 3, bound = (), stat = example_stat\<rparr>"

text \<open>A store whose nodes hold 65536 points each: node \<open>a\<close> holds the points from \<open>65536 a\<close> on.\<close>

definition large_store :: "unit store" where
  "large_store a =
     \<lparr>count = 65536, begin_index = 65536 * int a, end_index = 65536 * int a + 65536,
      bound = (), stat = example_stat\<rparr>"

text \<open>A kernel as \<^verbatim>\<open>Init\<close> and earlier calls may have left it.\<close>

definition example_kernel :: Kernel where
  "example_kernel =
   \<lparr>distmat' = \<lparr>n_rows = 3, n_cols = 3, elems = (\<lambda>r c. Fin 0)\<rparr>,
    index_orders' = (\<lambda>i. 0)\<rparr>"

text \<open>The three points 0, 1 and 2 of the real line, as the columns of a data matrix.\<close>

definition line_data :: Matrix where
  "line_data = \<lparr>n_rows = 1, n_cols = 3, elems = (\<lambda>r c. Fin (of_int c))\<rparr>"

text \<open>
  The four points 0, 1, 2 and 3 of the real line, and a store whose node 0 holds these
  four points.
\<close>

definition four_points :: Matrix where
  "four_points = \<lparr>n_rows = 1, n_cols = 4, elems = (\<lambda>r c. Fin (of_int c))\<rparr>"

definition quad_store :: "unit store" where
  "quad_store a =
     \<lparr>count = 4, begin_index = 4 * int a, end_index = 4 * int a + 4, bound = (),
      stat = example_stat\<rparr>"

text \<open>
  A running statistic that has absorbed \<open>j\<close> times the finite value \<open>g\<close>: an invariant of
  the loop of \<open>MonteCarloEval\<close> as long as every accepted draw is the same triple of
  points.
\<close>

definition absorbed :: "int \<Rightarrow> real \<Rightarrow> running \<Rightarrow> bool" where
  "absorbed j g r =
     (run_sum r = Fin (of_int j * g) \<and> run_squared_sum r = Fin (of_int j * (g * g)))"

text \<open>
  The locals after \<open>j\<close> accepted draws when every one of them gave the negative and
  positive parts \<open>a1\<close>, \<open>c1\<close> for the gradients 1 and 3 and \<open>a2\<close>, \<open>c2\<close> for gradient 2.
\<close>

definition line_run_invariant ::
  "int \<Rightarrow> real \<Rightarrow> real \<Rightarrow> real \<Rightarrow> real \<Rightarrow> MonteCarlo_locals \<Rightarrow> bool" where
  "line_run_invariant j a1 c1 a2 c2 st =
     (num_sample_trials_remaining st = 25 - j \<and> current_num_samples st = j \<and>
      absorbed j a1 (negative_gradient1_run st) \<and> absorbed j c1 (positive_gradient1_run st) \<and>
      absorbed j a2 (negative_gradient2_run st) \<and> absorbed j c2 (positive_gradient2_run st) \<and>
      absorbed j a1 (negative_gradient3_run st) \<and> absorbed j c1 (positive_gradient3_run st))"

text \<open>
  The same for the draws of the points 0, 1 and 2 of \<open>four_points\<close>, with the values
  that \<open>gradient'\<close> gives for them.
\<close>

definition quad_run_invariant :: "int \<Rightarrow> MonteCarlo_locals \<Rightarrow> bool" where
  "quad_run_invariant j st =
     line_run_invariant j (- (567 / 256000000000000000000)) (1047 / 256000000000000000000)
       (- (243 / 512000000000000000000)) (51 / 512000000000000000000) st"

text \<open>
  Two stores of one-point nodes with the same accumulated bounds: in the first the vector
  bound of the negative part is all in the postponed accumulator, in the second it is
  all in the region's own.
\<close>

definition postponed_store :: "unit store" where
  "postponed_store a =
     \<lparr>count = 1, begin_index = int a, end_index = int a + 1, bound = (),
      stat = example_stat\<lparr>negative_gradient1_u := Fin (- 4),
                            negative_gradient2_u := [Fin 0],
                            postponed_negative_gradient2_u := [Fin (- 4)]\<rparr>\<rparr>"

definition flushed_store :: "unit store" where
  "flushed_store a =
     \<lparr>count = 1, begin_index = int a, end_index = int a + 1, bound = (),
      stat = example_stat\<lparr>negative_gradient1_u := Fin (- 4),
                            negative_gradient2_u := [Fin (- 4)],
                            postponed_negative_gradient2_u := [Fin 0]\<rparr>\<rparr>"

text \<open>
  A store of three-point nodes to which nothing has been propagated yet: every
  accumulator is zero.
\<close>

definition fresh_store :: "unit store" where
  "fresh_store a =
     \<lparr>count = 3, begin_index = 3 * int a, end_index = 3 * int a + 3, bound = (),
      stat = \<lparr>negative_gradient1_u = Fin 0, positive_gradient1_l = Fin 0,
               negative_gradient2_u = [Fin 0], positive_gradient2_l = [Fin 0],
               l1_norm_coordinate_sum' = Fin 3, coordinate_sum' = [Fin 3],
               postponed_negative_gradient1_e = Fin 0, postponed_negative_gradient1_u = Fin 0,
               postponed_positive_gradient1_l = Fin 0, postponed_positive_gradient1_e = Fin 0,
               postponed_negative_gradient2_e = [Fin 0],
               postponed_negative_gradient2_u = [Fin 0],
               postponed_positive_gradient2_l = [Fin 0],
               postponed_positive_gradient2_e = [Fin 0]\<rparr>\<rparr>"

section \<open>Properties\<close>

subsection \<open>Arithmetic of doubles\<close>

lemma Fin_minus [simp]: "Fin a - Fin b = Fin (a - b)"
  by (simp add: minus_double_def)

text \<open>A result of magnitude at most \<^verbatim>\<open>10^30\<close> does not overflow.\<close>

lemma overflow_Fin: "\<bar>x\<bar> < overflow_threshold \<Longrightarrow> overflow x = Fin x"
  by (simp add: overflow_def)

lemma overflow_small:
  "\<bar>x\<bar> \<le> 1000000000000000000000000000000 \<Longrightarrow> overflow x = Fin x"
  by (rule overflow_Fin) (simp add: overflow_threshold_def)

lemma overflow_sum_positive:
  assumes "0 < x" "0 < y"
  shows "\<not> overflow x + overflow y \<le> Fin 0"
  using assms by (auto simp add: overflow_def)

lemma index_t_wrap_id: "- (2 ^ 31) \<le> n \<Longrightarrow> n < 2 ^ 31 \<Longrightarrow> index_t_wrap n = n"
  by (simp add: index_t_wrap_def)

lemma fabs_Fin [simp]: "fabs (Fin a) = Fin \<bar>a\<bar>"
  by (simp add: fabs_def)

lemma of_index_Fin [simp]: "of_index n = Fin (of_int n)"
  by (simp add: of_index_def)

lemma double_add_commute: "(a::double) + b = b + a"
  by (cases a; cases b) simp_all

lemma double_add_assoc: "((a::double) + b) + c = a + (b + c)"
  by (cases a; cases b; cases c) simp_all

lemma double_add_left_commute: "(a::double) + (b + c) = b + (a + c)"
  by (cases a; cases b; cases c) simp_all

lemma double_add_right_commute: "((a::double) + b) + c = (a + c) + b"
  by (cases a; cases b; cases c) simp_all

lemma AddExpert_left_commute:
  "AddExpert a x (AddExpert b y v) = AddExpert b y (AddExpert a x v)"
proof (induction v arbitrary: x y)
  case Nil
  show ?case by (cases x; cases y) simp_all
next
  case (Cons v0 v)
  show ?case
  proof (cases x)
    case Nil
    then show ?thesis by simp
  next
    case xc: (Cons x0 xs)
    show ?thesis
    proof (cases y)
      case Nil
      then show ?thesis by (simp add: xc)
    next
      case yc: (Cons y0 ys)
      show ?thesis
        by (simp add: xc yc Cons.IH double_add_left_commute)
    qed
  qed
qed

lemma length_AddExpert [simp]: "length (AddExpert a x v) = length v"
  by (induction a x v rule: AddExpert.induct) simp_all

subsection \<open>gradient\<close>

lemma gradient'_core:
  "gradient' distmat index_orders =
     gradient_core
       (Matrix_get distmat (min (index_orders 0) (index_orders 1))
                           (max (index_orders 0) (index_orders 1)))
       (Matrix_get distmat (max (index_orders 0) (index_orders 1))
                           (min (index_orders 0) (index_orders 1)))
       (Matrix_get distmat (min (index_orders 0) (index_orders 2))
                           (max (index_orders 0) (index_orders 2)))
       (Matrix_get distmat (max (index_orders 0) (index_orders 2))
                           (min (index_orders 0) (index_orders 2)))
       (Matrix_get distmat (min (index_orders 1) (index_orders 2))
                           (max (index_orders 1) (index_orders 2)))
       (Matrix_get distmat (max (index_orders 1) (index_orders 2))
                           (min (index_orders 1) (index_orders 2)))"
  unfolding gradient'_def gradient_core_def Let_def by (rule refl)

lemma EvalGradients_eq:
  "EvalGradients k =
     ((gradient_core (Matrix_get (distmat' k) 0 1) (Matrix_get (distmat' k) 1 0)
                     (Matrix_get (distmat' k) 0 2) (Matrix_get (distmat' k) 2 0)
                     (Matrix_get (distmat' k) 1 2) (Matrix_get (distmat' k) 2 1),
       gradient_core (Matrix_get (distmat' k) 0 2) (Matrix_get (distmat' k) 2 0)
                     (Matrix_get (distmat' k) 0 1) (Matrix_get (distmat' k) 1 0)
                     (Matrix_get (distmat' k) 1 2) (Matrix_get (distmat' k) 2 1),
       gradient_core (Matrix_get (distmat' k) 1 2) (Matrix_get (distmat' k) 2 1)
                     (Matrix_get (distmat' k) 0 2) (Matrix_get (distmat' k) 2 0)
                     (Matrix_get (distmat' k) 0 1) (Matrix_get (distmat' k) 1 0)),
      k\<lparr>index_orders' := (index_orders' k)(0 := 2, 1 := 1, 2 := 0)\<rparr>)"
  by (simp add: EvalGradients_def gradient'_core Let_def)

lemma EvalMinMaxSquaredDistances_nodes_eq:
  "EvalMinMaxSquaredDistances_nodes MinD MaxD s (n0, n1, n2) k =
     k\<lparr>distmat' := (distmat' k)\<lparr>elems := (elems (distmat' k))
       (0 := (elems (distmat' k) 0) (1 := MinD (bound (s n0)) (bound (s n1)),
                                     2 := MinD (bound (s n0)) (bound (s n2))),
        1 := (elems (distmat' k) 1) (0 := MaxD (bound (s n0)) (bound (s n1)),
                                     2 := MinD (bound (s n1)) (bound (s n2))),
        2 := (elems (distmat' k) 2) (0 := MaxD (bound (s n0)) (bound (s n2)),
                                     1 := MaxD (bound (s n1)) (bound (s n2))))\<rparr>\<rparr>"
  by (simp add: EvalMinMaxSquaredDistances_nodes_def index_pairs_def Let_def Matrix_set_def
      fun_eq_iff)

lemma EvalMinMaxSquaredDistances_points_eq:
  "EvalMinMaxSquaredDistances_points data indices k =
     k\<lparr>distmat' := (distmat' k)\<lparr>elems := (elems (distmat' k))
       (0 := (elems (distmat' k) 0)
              (1 := DistanceSqEuclidean (n_rows data) (GetColumnPtr data (indices 0))
                      (GetColumnPtr data (indices 1)),
               2 := DistanceSqEuclidean (n_rows data) (GetColumnPtr data (indices 0))
                      (GetColumnPtr data (indices 2))),
        1 := (elems (distmat' k) 1)
              (0 := DistanceSqEuclidean (n_rows data) (GetColumnPtr data (indices 0))
                      (GetColumnPtr data (indices 1)),
               2 := DistanceSqEuclidean (n_rows data) (GetColumnPtr data (indices 1))
                      (GetColumnPtr data (indices 2))),
        2 := (elems (distmat' k) 2)
              (0 := DistanceSqEuclidean (n_rows data) (GetColumnPtr data (indices 0))
                      (GetColumnPtr data (indices 2)),
               1 := DistanceSqEuclidean (n_rows data) (GetColumnPtr data (indices 1))
                      (GetColumnPtr data (indices 2))))\<rparr>\<rparr>"
  by (simp add: EvalMinMaxSquaredDistances_points_def index_pairs_def Let_def Matrix_set_def
      fun_eq_iff)

text \<open>The gradient bounds of a triple of nodes, as functions of the six distance bounds.\<close>

lemma EvalGradients_nodes:
  "fst (EvalGradients (EvalMinMaxSquaredDistances_nodes MinD MaxD s (n0, n1, n2) k)) =
     (gradient_core (MinD (bound (s n0)) (bound (s n1))) (MaxD (bound (s n0)) (bound (s n1)))
                    (MinD (bound (s n0)) (bound (s n2))) (MaxD (bound (s n0)) (bound (s n2)))
                    (MinD (bound (s n1)) (bound (s n2))) (MaxD (bound (s n1)) (bound (s n2))),
      gradient_core (MinD (bound (s n0)) (bound (s n2))) (MaxD (bound (s n0)) (bound (s n2)))
                    (MinD (bound (s n0)) (bound (s n1))) (MaxD (bound (s n0)) (bound (s n1)))
                    (MinD (bound (s n1)) (bound (s n2))) (MaxD (bound (s n1)) (bound (s n2))),
      gradient_core (MinD (bound (s n1)) (bound (s n2))) (MaxD (bound (s n1)) (bound (s n2)))
                    (MinD (bound (s n0)) (bound (s n2))) (MaxD (bound (s n0)) (bound (s n2)))
                    (MinD (bound (s n0)) (bound (s n1))) (MaxD (bound (s n0)) (bound (s n1))))"
  by (simp add: EvalGradients_eq EvalMinMaxSquaredDistances_nodes_eq Matrix_get_def)

subsection \<open>Eval\<close>

lemma tree_nodes_cases:
  obtains n0 n1 n2 :: addr where "nodes = (n0, n1, n2)"
  by (cases nodes) auto

lemma gradient_core_cases:
  obtains a b c d where "gradient_core m1 M1 m2 M2 m3 M3 = (a, b, c, d)"
  by (metis prod_cases4)

lemma zero_check_nodes:
  "list_ex (\<lambda>(i, j). deq (Matrix_get (distmat'
       (EvalMinMaxSquaredDistances_nodes MinD MaxD s (n0, n1, n2) k)) i j) (Fin 0))
     index_pairs =
   (deq (MinD (bound (s n0)) (bound (s n1))) (Fin 0) \<or>
    deq (MinD (bound (s n0)) (bound (s n2))) (Fin 0) \<or>
    deq (MinD (bound (s n1)) (bound (s n2))) (Fin 0))"
  by (simp add: EvalMinMaxSquaredDistances_nodes_eq index_pairs_def Matrix_get_def)

text \<open>
  \<open>Eval\<close> as a function of the six distance bounds of the triple and of the three
  quadruples of gradient bounds computed from them.
\<close>

lemma Eval_unfold:
  assumes g1: "gradient_core
                 (MinD (bound (s n0)) (bound (s n1))) (MaxD (bound (s n0)) (bound (s n1)))
                 (MinD (bound (s n0)) (bound (s n2))) (MaxD (bound (s n0)) (bound (s n2)))
                 (MinD (bound (s n1)) (bound (s n2))) (MaxD (bound (s n1)) (bound (s n2))) =
               (a1, b1, c1, d1)"
    and g2: "gradient_core
                 (MinD (bound (s n0)) (bound (s n2))) (MaxD (bound (s n0)) (bound (s n2)))
                 (MinD (bound (s n0)) (bound (s n1))) (MaxD (bound (s n0)) (bound (s n1)))
                 (MinD (bound (s n1)) (bound (s n2))) (MaxD (bound (s n1)) (bound (s n2))) =
               (a2, b2, c2, d2)"
    and g3: "gradient_core
                 (MinD (bound (s n1)) (bound (s n2))) (MaxD (bound (s n1)) (bound (s n2)))
                 (MinD (bound (s n0)) (bound (s n2))) (MaxD (bound (s n0)) (bound (s n2)))
                 (MinD (bound (s n0)) (bound (s n1))) (MaxD (bound (s n0)) (bound (s n1))) =
               (a3, b3, c3, d3)"
  shows "Eval MinD MaxD k s (n0, n1, n2) rel z tot =
    (if deq (MinD (bound (s n0)) (bound (s n1))) (Fin 0) \<or>
        deq (MinD (bound (s n0)) (bound (s n2))) (Fin 0) \<or>
        deq (MinD (bound (s n1)) (bound (s n2))) (Fin 0)
     then (False, EvalMinMaxSquaredDistances_nodes MinD MaxD s (n0, n1, n2) k, s)
     else if components_nan_or_inf a1 b1 c1 d1 a2 b2 c2 d2 a3 b3 c3 d3
     then (False,
           (EvalMinMaxSquaredDistances_nodes MinD MaxD s (n0, n1, n2) k)
             \<lparr>index_orders' := (index_orders' k)(0 := 2, 1 := 1, 2 := 0)\<rparr>, s)
     else if Prunable' s (n0, n1, n2) ((b1 - a1) * Fin 0.5) ((d1 - c1) * Fin 0.5)
               ((b2 - a2) * Fin 0.5) ((d2 - c2) * Fin 0.5) ((b3 - a3) * Fin 0.5)
               ((d3 - c3) * Fin 0.5)
               (Fin (of_int (index_t_wrap (count (s n1) * count (s n2)))))
               (Fin (of_int (index_t_wrap (count (s n0) * count (s n2)))))
               (Fin (of_int (index_t_wrap (count (s n0) * count (s n1))))) rel tot
     then (True,
           (EvalMinMaxSquaredDistances_nodes MinD MaxD s (n0, n1, n2) k)
             \<lparr>index_orders' := (index_orders' k)(0 := 2, 1 := 1, 2 := 0)\<rparr>,
           Prune' s (n0, n1, n2) a1 b1 c1 d1 a2 b2 c2 d2 a3 b3 c3 d3
             (Fin (of_int (index_t_wrap (count (s n1) * count (s n2)))))
             (Fin (of_int (index_t_wrap (count (s n0) * count (s n2)))))
             (Fin (of_int (index_t_wrap (count (s n0) * count (s n1))))))
     else (False,
           (EvalMinMaxSquaredDistances_nodes MinD MaxD s (n0, n1, n2) k)
             \<lparr>index_orders' := (index_orders' k)(0 := 2, 1 := 1, 2 := 0)\<rparr>, s))"
proof -
  let ?k1 = "EvalMinMaxSquaredDistances_nodes MinD MaxD s (n0, n1, n2) k"
  have io: "index_orders' ?k1 = index_orders' k"
    by (simp add: EvalMinMaxSquaredDistances_nodes_eq)
  have eg: "EvalGradients ?k1 =
      (((a1, b1, c1, d1), (a2, b2, c2, d2), (a3, b3, c3, d3)),
       ?k1\<lparr>index_orders' := (index_orders' k)(0 := 2, 1 := 1, 2 := 0)\<rparr>)"
    using EvalGradients_nodes [of MinD MaxD s n0 n1 n2 k]
    by (simp add: prod_eq_iff g1 g2 g3 EvalGradients_eq io)
  show ?thesis
    unfolding Eval_def ComputeGradientComponentError'_def
    by (simp only: prod.case Let_def eg zero_check_nodes Eval_pair_counts.simps of_index_Fin)
      simp
qed

lemma Eval_cases:
  "fst (Eval MinD MaxD k s nodes rel z tot) \<or>
   snd (snd (Eval MinD MaxD k s nodes rel z tot)) = s"
proof -
  obtain n0 n1 n2 where n: "nodes = (n0, n1, n2)"
    by (rule tree_nodes_cases)
  obtain a1 b1 c1 d1 where g1: "gradient_core
                 (MinD (bound (s n0)) (bound (s n1))) (MaxD (bound (s n0)) (bound (s n1)))
                 (MinD (bound (s n0)) (bound (s n2))) (MaxD (bound (s n0)) (bound (s n2)))
                 (MinD (bound (s n1)) (bound (s n2))) (MaxD (bound (s n1)) (bound (s n2))) =
               (a1, b1, c1, d1)"
    by (rule gradient_core_cases)
  obtain a2 b2 c2 d2 where g2: "gradient_core
                 (MinD (bound (s n0)) (bound (s n2))) (MaxD (bound (s n0)) (bound (s n2)))
                 (MinD (bound (s n0)) (bound (s n1))) (MaxD (bound (s n0)) (bound (s n1)))
                 (MinD (bound (s n1)) (bound (s n2))) (MaxD (bound (s n1)) (bound (s n2))) =
               (a2, b2, c2, d2)"
    by (rule gradient_core_cases)
  obtain a3 b3 c3 d3 where g3: "gradient_core
                 (MinD (bound (s n1)) (bound (s n2))) (MaxD (bound (s n1)) (bound (s n2)))
                 (MinD (bound (s n0)) (bound (s n2))) (MaxD (bound (s n0)) (bound (s n2)))
                 (MinD (bound (s n0)) (bound (s n1))) (MaxD (bound (s n0)) (bound (s n1))) =
               (a3, b3, c3, d3)"
    by (rule gradient_core_cases)
  show ?thesis
    unfolding n Eval_unfold [OF g1 g2 g3] by simp
qed

subsection \<open>The example inputs evaluated\<close>

lemma sqrt_16 [simp]: "sqrt 16 = 4"
  using real_sqrt_abs2 [of 4] by simp

lemma sqrt_25 [simp]: "sqrt 25 = 5"
  using real_sqrt_abs2 [of 5] by simp

lemma sqrt_49 [simp]: "sqrt 49 = 7"
  using real_sqrt_abs2 [of 7] by simp

lemma line_store_distances:
  "interval_MinDistanceSq (bound (line_store 0)) (bound (line_store 1)) = Fin 4"
  "interval_MaxDistanceSq (bound (line_store 0)) (bound (line_store 1)) = Fin 16"
  "interval_MinDistanceSq (bound (line_store 0)) (bound (line_store 2)) = Fin 25"
  "interval_MaxDistanceSq (bound (line_store 0)) (bound (line_store 2)) = Fin 49"
  "interval_MinDistanceSq (bound (line_store 1)) (bound (line_store 2)) = Fin 4"
  "interval_MaxDistanceSq (bound (line_store 1)) (bound (line_store 2)) = Fin 16"
  "interval_MinDistanceSq (bound (line_store 0)) (bound (line_store 0)) = Fin 0"
  by (simp_all add: interval_MinDistanceSq_def interval_MaxDistanceSq_def line_store_def)

lemma is_finite_Fin: "is_finite x \<Longrightarrow> \<exists>r. x = Fin r"
  by (cases x) simp_all

lemma ordered_quadruple:
  assumes "case q of (a, b, c, d) \<Rightarrow>
             is_finite a \<and> is_finite b \<and> is_finite c \<and> is_finite d \<and> a < b \<and> c < d"
  shows "\<exists>a b c d. q = (Fin a, Fin b, Fin c, Fin d) \<and> a < b \<and> c < d"
proof -
  obtain a b c d where q: "q = (a, b, c, d)"
    by (metis prod_cases4)
  from assms obtain ra rb rc rd where "a = Fin ra" "b = Fin rb" "c = Fin rc" "d = Fin rd"
    unfolding q by (auto dest!: is_finite_Fin)
  with assms show ?thesis
    unfolding q by simp
qed

lemma line_store_gradient1_value:
  "gradient_core (Fin 4) (Fin 16) (Fin 25) (Fin 49) (Fin 4) (Fin 16) =
     (Fin (- (243 / 320000000000000000000000)),
      Fin (- (11799 / 17623416832000000000000000000)),
      Fin (1517037 / 2255797354496000000000000000000),
      Fin (67449 / 20480000000000000000000000))"
  by (simp add: gradient_core_def Let_def Sqr_def AXILROD_TELLER_COEFF_def overflow_small)

lemma line_store_gradient2_value:
  "gradient_core (Fin 25) (Fin 49) (Fin 4) (Fin 16) (Fin 4) (Fin 16) =
     (Fin (- (16119 / 128000000000000000000000000)),
      Fin (- (1233171 / 6908379398144000000000000000000)),
      Fin (561 / 13492928512000000000000000000),
      Fin (69 / 4000000000000000000000000))"
  by (simp add: gradient_core_def Let_def Sqr_def AXILROD_TELLER_COEFF_def overflow_small)

text \<open>
  The gradient bounds of the nodes 0, 1 and 2 of \<open>line_store\<close> are finite, and each
  minimum is below its maximum.
\<close>

lemma line_store_gradient1:
  "\<exists>a b c d. gradient_core (Fin 4) (Fin 16) (Fin 25) (Fin 49) (Fin 4) (Fin 16) =
     (Fin a, Fin b, Fin c, Fin d) \<and> a < b \<and> c < d"
  by (rule ordered_quadruple) (simp add: line_store_gradient1_value)

lemma line_store_gradient2:
  "\<exists>a b c d. gradient_core (Fin 25) (Fin 49) (Fin 4) (Fin 16) (Fin 4) (Fin 16) =
     (Fin a, Fin b, Fin c, Fin d) \<and> a < b \<and> c < d"
  by (rule ordered_quadruple) (simp add: line_store_gradient2_value)

lemma components_finite [simp]:
  "components_nan_or_inf (Fin a1) (Fin b1) (Fin c1) (Fin d1) (Fin a2) (Fin b2) (Fin c2)
     (Fin d2) (Fin a3) (Fin b3) (Fin c3) (Fin d3) = False"
  by (simp add: components_nan_or_inf_def)

text \<open>With a relative error of zero, \<open>Eval\<close> does not prune the nodes 0, 1 and 2.\<close>

lemma Eval_line_store_exact:
  "Eval interval_MinDistanceSq interval_MaxDistanceSq example_kernel line_store (0, 1, 2)
     (Fin 0) (Fin 2) (Fin 1) =
   (False,
    (EvalMinMaxSquaredDistances_nodes interval_MinDistanceSq interval_MaxDistanceSq
       line_store (0, 1, 2) example_kernel)
      \<lparr>index_orders' := (index_orders' example_kernel)(0 := 2, 1 := 1, 2 := 0)\<rparr>,
    line_store)"
proof -
  obtain a1 b1 c1 d1 where g1:
    "gradient_core (Fin 4) (Fin 16) (Fin 25) (Fin 49) (Fin 4) (Fin 16) =
       (Fin a1, Fin b1, Fin c1, Fin d1)" and o1: "a1 < b1"
    using line_store_gradient1 by blast
  obtain a2 b2 c2 d2 where g2:
    "gradient_core (Fin 25) (Fin 49) (Fin 4) (Fin 16) (Fin 4) (Fin 16) =
       (Fin a2, Fin b2, Fin c2, Fin d2)" and o2: "a2 < b2"
    using line_store_gradient2 by blast
  obtain a3 b3 c3 d3 where g3:
    "gradient_core (Fin 4) (Fin 16) (Fin 25) (Fin 49) (Fin 4) (Fin 16) =
       (Fin a3, Fin b3, Fin c3, Fin d3)"
    using line_store_gradient1 by blast
  have "\<not> first_node_prunable line_store (0, 1, 2) (overflow ((b1 - a1) / 2)) e1p
              (overflow ((b2 - a2) / 2)) e2p jk (Fin 0) (Fin 1)" for e1p e2p jk
  proof -
    have "0 < (b1 - a1) / 2" "0 < (b2 - a2) / 2"
      using o1 o2 by simp_all
    then have "\<not> overflow ((b1 - a1) / 2) + overflow ((b2 - a2) / 2) \<le> Fin 0"
      by (rule overflow_sum_positive)
    then show "\<not> first_node_prunable line_store (0, 1, 2) (overflow ((b1 - a1) / 2)) e1p
              (overflow ((b2 - a2) / 2)) e2p jk (Fin 0) (Fin 1)" for e1p e2p jk
      by (simp add: first_node_prunable_def line_store_def example_stat_def overflow_small)
  qed
  then have not_prunable:
    "\<not> Prunable' line_store (0, 1, 2) ((Fin b1 - Fin a1) * Fin 0.5) e1p
         ((Fin b2 - Fin a2) * Fin 0.5) e2p e3n e3p jk ik ij (Fin 0) (Fin 1)"
    for e1p e2p e3n e3p jk ik ij
    by (simp add: Prunable'_def)
  show ?thesis
    using Eval_unfold [of interval_MinDistanceSq line_store 0 1 interval_MaxDistanceSq 2,
        unfolded line_store_distances, OF g1 g2 g3] not_prunable
    by simp
qed

lemma components_nan_or_inf_list:
  "components_nan_or_inf a1 b1 c1 d1 a2 b2 c2 d2 a3 b3 c3 d3 =
     (\<exists>g \<in> set (gradient_bound_list ((a1, b1, c1, d1), (a2, b2, c2, d2), (a3, b3, c3, d3))).
        isnan g \<or> isinf g)"
  by (auto simp add: components_nan_or_inf_def)

text \<open>All six distance bounds are 1: every gradient bound is finite, each error is zero.\<close>

lemma unit_gradient:
  "gradient_core (Fin 1) (Fin 1) (Fin 1) (Fin 1) (Fin 1) (Fin 1) =
     (Fin (- (81 / 8000000000000000000)), Fin (- (81 / 8000000000000000000)),
      Fin (3 / 500000000000000000), Fin (3 / 500000000000000000))"
  by (simp add: gradient_core_def Let_def Sqr_def AXILROD_TELLER_COEFF_def overflow_small)

text \<open>Regions at least 1 apart and unbounded: a maximum of the positive part is infinite.\<close>

lemma unbounded_gradient:
  "gradient_core (Fin 1) PInf (Fin 1) PInf (Fin 1) PInf =
     (Fin (- (81 / 8000000000000000000)), Fin 0, Fin 0, PInf)"
  by (simp add: gradient_core_def Let_def Sqr_def AXILROD_TELLER_COEFF_def overflow_small)

lemma L1Norm_single [simp]: "L1Norm' [Fin a] = Fin \<bar>a\<bar>"
  by (simp add: L1Norm'_def)

lemma BinomialCoefficient_2: "BinomialCoefficient n 2 = Fin (real (nat n choose 2))"
  by (auto simp add: BinomialCoefficient_def)

lemma choose_2_2 [simp]: "(2::nat) choose 2 = 1"
  by (simp add: numeral_2_eq_2)

subsection \<open>The Monte Carlo loop\<close>

text \<open>The gradients of a triple of points, as functions of the three squared distances.\<close>

lemma EvalGradients_points:
  "EvalGradients (EvalMinMaxSquaredDistances_points data indices k) =
     ((gradient_core
         (DistanceSqEuclidean (n_rows data) (GetColumnPtr data (indices 0))
            (GetColumnPtr data (indices 1)))
         (DistanceSqEuclidean (n_rows data) (GetColumnPtr data (indices 0))
            (GetColumnPtr data (indices 1)))
         (DistanceSqEuclidean (n_rows data) (GetColumnPtr data (indices 0))
            (GetColumnPtr data (indices 2)))
         (DistanceSqEuclidean (n_rows data) (GetColumnPtr data (indices 0))
            (GetColumnPtr data (indices 2)))
         (DistanceSqEuclidean (n_rows data) (GetColumnPtr data (indices 1))
            (GetColumnPtr data (indices 2)))
         (DistanceSqEuclidean (n_rows data) (GetColumnPtr data (indices 1))
            (GetColumnPtr data (indices 2))),
       gradient_core
         (DistanceSqEuclidean (n_rows data) (GetColumnPtr data (indices 0))
            (GetColumnPtr data (indices 2)))
         (DistanceSqEuclidean (n_rows data) (GetColumnPtr data (indices 0))
            (GetColumnPtr data (indices 2)))
         (DistanceSqEuclidean (n_rows data) (GetColumnPtr data (indices 0))
            (GetColumnPtr data (indices 1)))
         (DistanceSqEuclidean (n_rows data) (GetColumnPtr data (indices 0))
            (GetColumnPtr data (indices 1)))
         (DistanceSqEuclidean (n_rows data) (GetColumnPtr data (indices 1))
            (GetColumnPtr data (indices 2)))
         (DistanceSqEuclidean (n_rows data) (GetColumnPtr data (indices 1))
            (GetColumnPtr data (indices 2))),
       gradient_core
         (DistanceSqEuclidean (n_rows data) (GetColumnPtr data (indices 1))
            (GetColumnPtr data (indices 2)))
         (DistanceSqEuclidean (n_rows data) (GetColumnPtr data (indices 1))
            (GetColumnPtr data (indices 2)))
         (DistanceSqEuclidean (n_rows data) (GetColumnPtr data (indices 0))
            (GetColumnPtr data (indices 2)))
         (DistanceSqEuclidean (n_rows data) (GetColumnPtr data (indices 0))
            (GetColumnPtr data (indices 2)))
         (DistanceSqEuclidean (n_rows data) (GetColumnPtr data (indices 0))
            (GetColumnPtr data (indices 1)))
         (DistanceSqEuclidean (n_rows data) (GetColumnPtr data (indices 0))
            (GetColumnPtr data (indices 1)))),
      (EvalMinMaxSquaredDistances_points data indices k)
        \<lparr>index_orders' := (index_orders' k)(0 := 2, 1 := 1, 2 := 0)\<rparr>)"
  by (simp add: EvalGradients_eq EvalMinMaxSquaredDistances_points_eq Matrix_get_def)

text \<open>A pass through the body with a rejected draw writes the three indices only.\<close>

lemma MonteCarlo_body_reject:
  assumes "\<not> valid_sample (r0, r1, r2)"
  shows "MonteCarlo_body data z st (r0, r1, r2) =
           st\<lparr>sampled_indices := (sampled_indices st)(0 := r0, 1 := r1, 2 := r2)\<rparr>"
  using assms by (simp add: MonteCarlo_body_def)

lemma UpdateStatistics_other [simp]:
  "num_sample_trials_remaining (UpdateStatistics' a b c d e f st) =
     num_sample_trials_remaining st"
  "current_num_samples (UpdateStatistics' a b c d e f st) = current_num_samples st"
  "prunable (UpdateStatistics' a b c d e f st) = prunable st"
  "should_try (UpdateStatistics' a b c d e f st) = should_try st"
  "sampled_indices (UpdateStatistics' a b c d e f st) = sampled_indices st"
  "scratch (UpdateStatistics' a b c d e f st) = scratch st"
  by (simp_all add: UpdateStatistics'_def)

text \<open>
  A pass with an accepted draw: the distances and gradients of the three points, the
  statistics updated with the six minimum components, one trial less, one sample more.
\<close>

lemma MonteCarlo_body_accept:
  assumes v: "valid_sample (r0, r1, r2)"
    and g: "EvalGradients (EvalMinMaxSquaredDistances_points data
              ((sampled_indices st)(0 := r0, 1 := r1, 2 := r2)) (scratch st)) =
            (((g1n, x1, g1p, y1), (g2n, x2, g2p, y2), (g3n, x3, g3p, y3)), k')"
  shows "MonteCarlo_body data z st (r0, r1, r2) =
     (UpdateStatistics' g1n g1p g2n g2p g3n g3p
        (st\<lparr>sampled_indices := (sampled_indices st)(0 := r0, 1 := r1, 2 := r2),
            scratch := k'\<rparr>))
       \<lparr>num_sample_trials_remaining := num_sample_trials_remaining st - 1,
        current_num_samples := current_num_samples st + 1\<rparr>"
  using v
  by (simp add: MonteCarlo_body_def g Let_def)

lemma EvalGradients_cases:
  obtains g1n x1 g1p y1 g2n x2 g2p y2 g3n x3 g3p y3 k' where
    "EvalGradients k = (((g1n, x1, g1p, y1), (g2n, x2, g2p, y2), (g3n, x3, g3p, y3)), k')"
  by (metis prod_cases4 prod_cases3 surj_pair)

lemma MonteCarlo_body_trials:
  "num_sample_trials_remaining (MonteCarlo_body data z st d) =
     (if valid_sample d then num_sample_trials_remaining st - 1
      else num_sample_trials_remaining st)"
proof -
  obtain r0 r1 r2 where d: "d = (r0, r1, r2)"
    by (cases d) auto
  obtain g1n x1 g1p y1 g2n x2 g2p y2 g3n x3 g3p y3 k' where
    g: "EvalGradients (EvalMinMaxSquaredDistances_points data
              ((sampled_indices st)(0 := r0, 1 := r1, 2 := r2)) (scratch st)) =
            (((g1n, x1, g1p, y1), (g2n, x2, g2p, y2), (g3n, x3, g3p, y3)), k')"
    by (rule EvalGradients_cases)
  show ?thesis
  proof (cases "valid_sample (r0, r1, r2)")
    case True
    then show ?thesis
      unfolding d MonteCarlo_body_accept [OF True g] by simp
  next
    case False
    then show ?thesis
      unfolding d MonteCarlo_body_reject [OF False] by simp
  qed
qed

lemma MonteCarlo_body_prunable:
  "prunable (MonteCarlo_body data z st d) = prunable st"
proof -
  obtain r0 r1 r2 where d: "d = (r0, r1, r2)"
    by (cases d) auto
  obtain g1n x1 g1p y1 g2n x2 g2p y2 g3n x3 g3p y3 k' where
    g: "EvalGradients (EvalMinMaxSquaredDistances_points data
              ((sampled_indices st)(0 := r0, 1 := r1, 2 := r2)) (scratch st)) =
            (((g1n, x1, g1p, y1), (g2n, x2, g2p, y2), (g3n, x3, g3p, y3)), k')"
    by (rule EvalGradients_cases)
  show ?thesis
  proof (cases "valid_sample (r0, r1, r2)")
    case True
    then show ?thesis
      unfolding d MonteCarlo_body_accept [OF True g] by simp
  next
    case False
    then show ?thesis
      unfolding d MonteCarlo_body_reject [OF False] by simp
  qed
qed

lemma MonteCarlo_body_z:
  "MonteCarlo_body data z st d = MonteCarlo_body data z' st d"
proof -
  obtain r0 r1 r2 where d: "d = (r0, r1, r2)"
    by (cases d) auto
  obtain g1n x1 g1p y1 g2n x2 g2p y2 g3n x3 g3p y3 k' where
    g: "EvalGradients (EvalMinMaxSquaredDistances_points data
              ((sampled_indices st)(0 := r0, 1 := r1, 2 := r2)) (scratch st)) =
            (((g1n, x1, g1p, y1), (g2n, x2, g2p, y2), (g3n, x3, g3p, y3)), k')"
    by (rule EvalGradients_cases)
  show ?thesis
  proof (cases "valid_sample (r0, r1, r2)")
    case True
    then show ?thesis
      unfolding d MonteCarlo_body_accept [OF True g] by simp
  next
    case False
    then show ?thesis
      unfolding d MonteCarlo_body_reject [OF False] by simp
  qed
qed

text \<open>The loop never assigns \<open>prunable\<close>, and it does not read the z-score.\<close>

lemma MonteCarlo_loop_prunable:
  "MonteCarlo_loop data z st draws = Some st' \<Longrightarrow> prunable st' = prunable st"
proof (induction draws arbitrary: st)
  case Nil
  then show ?case by simp
next
  case (Cons d draws)
  show ?case
  proof (cases "0 < num_sample_trials_remaining (MonteCarlo_body data z st d)")
    case True
    with Cons.prems have "MonteCarlo_loop data z (MonteCarlo_body data z st d) draws = Some st'"
      by (simp add: Let_def)
    then have "prunable st' = prunable (MonteCarlo_body data z st d)"
      by (rule Cons.IH)
    then show ?thesis
      by (simp add: MonteCarlo_body_prunable)
  next
    case False
    with Cons.prems have "st' = MonteCarlo_body data z st d"
      by (simp add: Let_def)
    then show ?thesis
      by (simp add: MonteCarlo_body_prunable)
  qed
qed

lemma MonteCarlo_loop_z:
  "MonteCarlo_loop data z st draws = MonteCarlo_loop data z' st draws"
proof (induction draws arbitrary: st)
  case Nil
  show ?case by simp
next
  case (Cons d draws)
  show ?case
    using Cons.IH [of "MonteCarlo_body data z' st d"] MonteCarlo_body_z [of data z st d z']
    by (simp add: Let_def)
qed

text \<open>
  The loop ends once it has drawn as many valid samples as trials remain; with fewer it
  has not ended.
\<close>

lemma MonteCarlo_loop_returns:
  assumes "0 < num_sample_trials_remaining st"
    and "num_sample_trials_remaining st \<le> int (length (filter valid_sample draws))"
  shows "\<exists>st'. MonteCarlo_loop data z st draws = Some st'"
  using assms
proof (induction draws arbitrary: st)
  case Nil
  then show ?case by simp
next
  case (Cons d draws)
  show ?case
  proof (cases "0 < num_sample_trials_remaining (MonteCarlo_body data z st d)")
    case True
    have "num_sample_trials_remaining (MonteCarlo_body data z st d) \<le>
            int (length (filter valid_sample draws))"
      using Cons.prems by (simp add: MonteCarlo_body_trials split: if_splits)
    with True have "\<exists>st'. MonteCarlo_loop data z (MonteCarlo_body data z st d) draws = Some st'"
      by (rule Cons.IH)
    with True show ?thesis
      by (simp add: Let_def)
  next
    case False
    then show ?thesis
      by (simp add: Let_def)
  qed
qed

lemma MonteCarlo_loop_starves:
  assumes "int (length (filter valid_sample draws)) < num_sample_trials_remaining st"
  shows "MonteCarlo_loop data z st draws = None"
  using assms
proof (induction draws arbitrary: st)
  case Nil
  show ?case by simp
next
  case (Cons d draws)
  have t: "int (length (filter valid_sample draws)) <
        num_sample_trials_remaining (MonteCarlo_body data z st d)"
    using Cons.prems by (simp add: MonteCarlo_body_trials split: if_splits)
  then have "0 < num_sample_trials_remaining (MonteCarlo_body data z st d)"
    by (smt (verit) of_nat_0_le_iff)
  with Cons.IH [OF t] show ?case
    by (simp add: Let_def)
qed

subsection \<open>A run of MonteCarloEval on the three points of \<open>line_data\<close>\<close>

lemma line_data_distances:
  "DistanceSqEuclidean (n_rows line_data) (GetColumnPtr line_data 0) (GetColumnPtr line_data 1)
     = Fin 1"
  "DistanceSqEuclidean (n_rows line_data) (GetColumnPtr line_data 0) (GetColumnPtr line_data 2)
     = Fin 4"
  "DistanceSqEuclidean (n_rows line_data) (GetColumnPtr line_data 1) (GetColumnPtr line_data 2)
     = Fin 1"
  by (simp_all add: DistanceSqEuclidean_def GetColumnPtr_def line_data_def overflow_small)

lemma finite_quadruple:
  assumes "case q of (a, b, c, d) \<Rightarrow> is_finite a \<and> is_finite b \<and> is_finite c \<and> is_finite d"
  shows "\<exists>a b c d. q = (Fin a, Fin b, Fin c, Fin d)"
proof -
  obtain a b c d where q: "q = (a, b, c, d)"
    by (metis prod_cases4)
  from assms obtain ra rb rc rd where "a = Fin ra" "b = Fin rb" "c = Fin rc" "d = Fin rd"
    unfolding q by (auto dest!: is_finite_Fin)
  then show ?thesis
    unfolding q by simp
qed

lemma UpdateStatistics_runs [simp]:
  "negative_gradient1_run (UpdateStatistics' a b c d e f st) =
     UpdateStatistics_component a (negative_gradient1_run st)"
  "positive_gradient1_run (UpdateStatistics' a b c d e f st) =
     UpdateStatistics_component b (positive_gradient1_run st)"
  "negative_gradient2_run (UpdateStatistics' a b c d e f st) =
     UpdateStatistics_component c (negative_gradient2_run st)"
  "positive_gradient2_run (UpdateStatistics' a b c d e f st) =
     UpdateStatistics_component d (positive_gradient2_run st)"
  "negative_gradient3_run (UpdateStatistics' a b c d e f st) =
     UpdateStatistics_component e (negative_gradient3_run st)"
  "positive_gradient3_run (UpdateStatistics' a b c d e f st) =
     UpdateStatistics_component f (positive_gradient3_run st)"
  by (simp_all add: UpdateStatistics'_def)

lemma MonteCarloEval_eq:
  "MonteCarloEval data indices k s nodes rel z tot draws =
     (case MonteCarlo_loop data z (initial_locals indices k) draws of
        None \<Rightarrow> None
      | Some st \<Rightarrow> Some (prunable st, sampled_indices st, scratch st, s))"
  by (simp add: MonteCarloEval_def split: prod.split)

lemma prunable_initial_locals [simp]: "prunable (initial_locals indices k) = False"
  by (simp add: initial_locals_def)

subsection \<open>Budgets grow with the relative error\<close>

lemma L1Norm_foldl_finite:
  assumes "list_all is_finite v"
  shows "\<exists>l. 0 \<le> l \<and> foldl (\<lambda>length' x. length' + fabs x) (Fin a) v = Fin (a + l)"
  using assms
proof (induction v arbitrary: a)
  case Nil
  show ?case by simp
next
  case (Cons x v)
  from Cons.prems obtain r where x: "x = Fin r" and v: "list_all is_finite v"
    by (auto dest: is_finite_Fin)
  from Cons.IH [OF v, of "a + \<bar>r\<bar>"] obtain l where
    "0 \<le> l" "foldl (\<lambda>length' x. length' + fabs x) (Fin (a + \<bar>r\<bar>)) v = Fin (a + \<bar>r\<bar> + l)"
    by blast
  then have "0 \<le> \<bar>r\<bar> + l \<and>
      foldl (\<lambda>length' x. length' + fabs x) (Fin a) (x # v) = Fin (a + (\<bar>r\<bar> + l))"
    by (simp add: x add.assoc)
  then show ?case
    by blast
qed

lemma L1Norm_finite:
  assumes "list_all is_finite v"
  shows "\<exists>l. 0 \<le> l \<and> L1Norm' v = Fin l"
  using L1Norm_foldl_finite [OF assms, of 0] by (simp add: L1Norm'_def)

lemma finite_budget_example_stat [simp]: "finite_budget example_stat"
  by (simp add: finite_budget_def example_stat_def)

subsection \<open>Prune\<close>

lemma upd_stat_apply:
  "upd_stat s n f a = (if a = n then (s n)\<lparr>stat := f (stat (s n))\<rparr> else s a)"
  by (simp add: upd_stat_def)

lemma count_upd_stat [simp]: "count (upd_stat s n f a) = count (s a)"
  by (simp add: upd_stat_def)

lemma upd_stat_twice: "upd_stat (upd_stat s n f) n g = upd_stat s n (\<lambda>st. g (f st))"
  by (simp add: upd_stat_def)

lemma upd_stat_commute:
  "n \<noteq> m \<Longrightarrow> upd_stat (upd_stat s n f) m g = upd_stat (upd_stat s m g) n f"
  by (auto simp add: upd_stat_def fun_eq_iff)

lemma upd_stat_cong:
  "f (stat (s n)) = g (stat (s n)) \<Longrightarrow> upd_stat s n f = upd_stat s n g"
  by (simp add: upd_stat_def)

lemma coordinate_sum_upd_stat:
  "coordinate_sum' (f (stat (s n))) = coordinate_sum' (stat (s n)) \<Longrightarrow>
   coordinate_sum' (stat (upd_stat s n f a)) = coordinate_sum' (stat (s a))"
  by (simp add: upd_stat_def)

lemma Prune_first_eq:
  "Prune_first s (n0, n1, n2) min_negative_gradient1 max_negative_gradient1
     min_positive_gradient1 max_positive_gradient1 min_negative_gradient2
     max_negative_gradient2 min_positive_gradient2 max_positive_gradient2 num_jk_pairs =
   upd_stat s n0
     (slot_update num_jk_pairs min_negative_gradient1 max_negative_gradient1
        min_positive_gradient1 max_positive_gradient1 min_negative_gradient2
        max_negative_gradient2 min_positive_gradient2 max_positive_gradient2
        (count (s n2)) (coordinate_sum' (stat (s n1)))
        (count (s n1)) (coordinate_sum' (stat (s n2))))"
  unfolding Prune_first_def
  apply (simp add: Let_def coordinate_sum_upd_stat upd_stat_twice)
  apply (rule upd_stat_cong)
  apply (simp add: slot_update_def)
  done


lemma Prune_second_eq:
  "Prune_second s (n0, n1, n2) min_negative_gradient1 max_negative_gradient1
     min_positive_gradient1 max_positive_gradient1 min_negative_gradient3
     max_negative_gradient3 min_positive_gradient3 max_positive_gradient3 num_ik_pairs =
   upd_stat s n1
     (slot_update num_ik_pairs min_negative_gradient1 max_negative_gradient1
        min_positive_gradient1 max_positive_gradient1 min_negative_gradient3
        max_negative_gradient3 min_positive_gradient3 max_positive_gradient3
        (count (s n2)) (coordinate_sum' (stat (s n0)))
        (count (s n0)) (coordinate_sum' (stat (s n2))))"
  unfolding Prune_second_def
  apply (simp add: Let_def coordinate_sum_upd_stat upd_stat_twice)
  apply (rule upd_stat_cong)
  apply (simp add: slot_update_def)
  done

lemma Prune_third_eq:
  "Prune_third s (n0, n1, n2) min_negative_gradient2 max_negative_gradient2
     min_positive_gradient2 max_positive_gradient2 min_negative_gradient3
     max_negative_gradient3 min_positive_gradient3 max_positive_gradient3 num_ij_pairs =
   upd_stat s n2
     (slot_update num_ij_pairs min_negative_gradient2 max_negative_gradient2
        min_positive_gradient2 max_positive_gradient2 min_negative_gradient3
        max_negative_gradient3 min_positive_gradient3 max_positive_gradient3
        (count (s n1)) (coordinate_sum' (stat (s n0)))
        (count (s n0)) (coordinate_sum' (stat (s n1))))"
  unfolding Prune_third_def
  apply (simp add: Let_def coordinate_sum_upd_stat upd_stat_twice)
  apply (rule upd_stat_cong)
  apply (simp add: slot_update_def)
  done

text \<open>
  A slot update writes the postponed accumulators only: what the blocks read (counts and
  coordinate sums) is the same before and after. Slot updates commute, also on one node:
  the additions to an accumulator can be done in either order.
\<close>

lemma coordinate_sum_slot_update [simp]:
  "coordinate_sum' (stat (upd_stat s n
      (slot_update p a1 b1 c1 d1 a2 b2 c2 d2 cA sA cB sB) a)) = coordinate_sum' (stat (s a))"
  by (simp add: upd_stat_def slot_update_def)

lemma slot_update_commute:
  "slot_update p a1 b1 c1 d1 a2 b2 c2 d2 cA sA cB sB
     (slot_update p' a1' b1' c1' d1' a2' b2' c2' d2' cA' sA' cB' sB' st) =
   slot_update p' a1' b1' c1' d1' a2' b2' c2' d2' cA' sA' cB' sB'
     (slot_update p a1 b1 c1 d1 a2 b2 c2 d2 cA sA cB sB st)"
  by (simp add: slot_update_def double_add_right_commute AddExpert_left_commute)

lemma upd_slot_commute:
  "upd_stat (upd_stat s n (slot_update p a1 b1 c1 d1 a2 b2 c2 d2 cA sA cB sB)) m
     (slot_update p' a1' b1' c1' d1' a2' b2' c2' d2' cA' sA' cB' sB') =
   upd_stat (upd_stat s m (slot_update p' a1' b1' c1' d1' a2' b2' c2' d2' cA' sA' cB' sB')) n
     (slot_update p a1 b1 c1 d1 a2 b2 c2 d2 cA sA cB sB)"
proof (cases "n = m")
  case True
  show ?thesis
    unfolding True upd_stat_twice
    by (rule upd_stat_cong) (rule slot_update_commute [symmetric])
next
  case False
  then show ?thesis
    by (rule upd_stat_commute)
qed

lemma Prune_slot_eq:
  "Prune_slot i s (n0, n1, n2) a1 b1 c1 d1 a2 b2 c2 d2 a3 b3 c3 d3 jk ik ij =
     (if i = 0 then
        upd_stat s n0 (slot_update jk a1 b1 c1 d1 a2 b2 c2 d2
          (count (s n2)) (coordinate_sum' (stat (s n1)))
          (count (s n1)) (coordinate_sum' (stat (s n2))))
      else if i = 1 then
        (if n1 \<noteq> n0 then
           upd_stat s n1 (slot_update ik a1 b1 c1 d1 a3 b3 c3 d3
             (count (s n2)) (coordinate_sum' (stat (s n0)))
             (count (s n0)) (coordinate_sum' (stat (s n2))))
         else s)
      else
        (if n2 \<noteq> n1 then
           upd_stat s n2 (slot_update ij a2 b2 c2 d2 a3 b3 c3 d3
             (count (s n1)) (coordinate_sum' (stat (s n0)))
             (count (s n0)) (coordinate_sum' (stat (s n1))))
         else s))"
  by (simp add: Prune_slot_def Prune_first_eq Prune_second_eq Prune_third_eq)

lemma Prune_slots:
  "Prune' s (n0, n1, n2) a1 b1 c1 d1 a2 b2 c2 d2 a3 b3 c3 d3 jk ik ij =
     Prune_slot 2
       (Prune_slot 1
          (Prune_slot 0 s (n0, n1, n2) a1 b1 c1 d1 a2 b2 c2 d2 a3 b3 c3 d3 jk ik ij)
          (n0, n1, n2) a1 b1 c1 d1 a2 b2 c2 d2 a3 b3 c3 d3 jk ik ij)
       (n0, n1, n2) a1 b1 c1 d1 a2 b2 c2 d2 a3 b3 c3 d3 jk ik ij"
  by (simp add: Prune'_def Prune_slot_def Let_def)

lemma Prune_slot_commute:
  "Prune_slot i
     (Prune_slot j s (n0, n1, n2) a1 b1 c1 d1 a2 b2 c2 d2 a3 b3 c3 d3 jk ik ij)
     (n0, n1, n2) a1 b1 c1 d1 a2 b2 c2 d2 a3 b3 c3 d3 jk ik ij =
   Prune_slot j
     (Prune_slot i s (n0, n1, n2) a1 b1 c1 d1 a2 b2 c2 d2 a3 b3 c3 d3 jk ik ij)
     (n0, n1, n2) a1 b1 c1 d1 a2 b2 c2 d2 a3 b3 c3 d3 jk ik ij"
  unfolding Prune_slot_eq
  by (auto intro: upd_slot_commute)


lemma upd_stat_other: "a \<noteq> n \<Longrightarrow> upd_stat s n f a = s a"
  by (simp add: upd_stat_def)

lemma upd_stat_frame: "(upd_stat s n f a)\<lparr>stat := x\<rparr> = (s a)\<lparr>stat := x\<rparr>"
  by (simp add: upd_stat_def)

lemma Prune_slot_other:
  "a \<noteq> n0 \<Longrightarrow> a \<noteq> n1 \<Longrightarrow> a \<noteq> n2 \<Longrightarrow>
   Prune_slot i s (n0, n1, n2) a1 b1 c1 d1 a2 b2 c2 d2 a3 b3 c3 d3 jk ik ij a = s a"
  by (simp add: Prune_slot_eq upd_stat_other)

lemma Prune_slot_frame:
  "(Prune_slot i s (n0, n1, n2) a1 b1 c1 d1 a2 b2 c2 d2 a3 b3 c3 d3 jk ik ij a)\<lparr>stat := x\<rparr> =
   (s a)\<lparr>stat := x\<rparr>"
  by (simp add: Prune_slot_eq upd_stat_frame)

lemma index_t_wrap_in_range: "in_index_t n \<Longrightarrow> index_t_wrap n = n"
  by (simp add: in_index_t_def index_t_wrap_def)

subsection \<open>The pair counts of Eval\<close>

lemma line_store_counts:
  "Eval_pair_counts line_store (0, 1, 2) = (Fin 4, Fin 4, Fin 4)"
  "ComputeNumTwoTuples' line_store (0, 1, 2) = (Fin 4, Fin 4, Fin 4)"
  by (simp_all add: line_store_def index_t_wrap_def)

text \<open>With a relative error of 1, \<open>Eval\<close> prunes the nodes 0, 1 and 2 of \<open>line_store\<close>.\<close>

lemma line_store_prunable:
  "Prunable' line_store (0, 1, 2)
     ((Fin (- (11799 / 17623416832000000000000000000)) -
       Fin (- (243 / 320000000000000000000000))) * Fin 0.5)
     ((Fin (67449 / 20480000000000000000000000) -
       Fin (1517037 / 2255797354496000000000000000000)) * Fin 0.5)
     ((Fin (- (1233171 / 6908379398144000000000000000000)) -
       Fin (- (16119 / 128000000000000000000000000))) * Fin 0.5)
     ((Fin (69 / 4000000000000000000000000) -
       Fin (561 / 13492928512000000000000000000)) * Fin 0.5)
     ((Fin (- (11799 / 17623416832000000000000000000)) -
       Fin (- (243 / 320000000000000000000000))) * Fin 0.5)
     ((Fin (67449 / 20480000000000000000000000) -
       Fin (1517037 / 2255797354496000000000000000000)) * Fin 0.5)
     (Fin 4) (Fin 4) (Fin 4) (Fin 1) (Fin 1)"
  by (simp add: Prunable'_def first_node_prunable_def second_node_test_def
      third_node_test_def line_store_def example_stat_def overflow_small)

subsection \<open>Budgets grow with the relative error\<close>

lemma overflow_threshold_positive: "0 < overflow_threshold"
  by (simp add: overflow_threshold_def)

lemma overflow_not_nan [simp]: "overflow x \<noteq> NaN"
  using overflow_threshold_positive by (auto simp add: overflow_def)

lemma overflow_mono: "x \<le> y \<Longrightarrow> overflow x \<le> overflow y"
  using overflow_threshold_positive by (auto simp add: overflow_def)

lemma overflow_finite: "is_finite (overflow x) \<Longrightarrow> overflow x = Fin x"
  using overflow_threshold_positive by (auto simp add: overflow_def split: if_splits)

lemma overflow_finite_bound: "is_finite (overflow x) \<Longrightarrow> x < overflow_threshold"
  using overflow_threshold_positive by (auto simp add: overflow_def split: if_splits)

lemma overflow_cases:
  "overflow x = Fin x \<and> \<bar>x\<bar> < overflow_threshold \<or>
   overflow x = PInf \<and> overflow_threshold \<le> x \<or>
   overflow x = NInf \<and> x \<le> - overflow_threshold"
  using overflow_threshold_positive by (auto simp add: overflow_def)

lemma not_le_NaN [simp]: "\<not> (x::double) \<le> NaN"
  by (cases x) simp_all

lemma double_le_trans: "(a::double) \<le> b \<Longrightarrow> b \<le> c \<Longrightarrow> a \<le> c"
  by (cases a; cases b; cases c) simp_all

text \<open>
  A budget is a scale (the relative error over the normalizer, times a pair count for the
  cross terms) times a magnitude \<open>b\<close>. A scale that is a number \<open>v\<close> gives at least the
  budget of every smaller scale.
\<close>

lemma scale_mono:
  assumes "u \<le> v" "v < overflow_threshold" "0 \<le> b" "X \<le> overflow u * Fin b"
  shows "X \<le> Fin v * Fin b"
proof -
  from overflow_cases [of u] show ?thesis
  proof (elim disjE conjE)
    assume "overflow u = Fin u"
    with assms(4) have "X \<le> overflow (u * b)"
      by simp
    moreover have "overflow (u * b) \<le> overflow (v * b)"
      using assms(1,3) by (intro overflow_mono mult_right_mono)
    ultimately show ?thesis
      by (simp add: double_le_trans)
  next
    assume "overflow_threshold \<le> u"
    with assms(1,2) show ?thesis
      by simp
  next
    assume "overflow u = NInf"
    with assms(4) have "X \<le> signed_inf (- b)"
      by simp
    with assms(3) have "X \<le> NInf"
      by (cases "b = 0") (simp_all split: if_splits)
    then have "X = NInf"
      by (cases X) simp_all
    then show ?thesis
      by (cases "overflow (v * b)") simp_all
  qed
qed

text \<open>
  The two scales of \<open>Prunable'\<close>. When the scale of the larger relative error is finite,
  it is a number, and the scale of the smaller one is that of a number below it.
\<close>

lemma scale_finite:
  assumes "0 < t" "is_finite (Fin r' / Fin t)"
  shows "Fin r' / Fin t = Fin (r' / t)" "r' / t < overflow_threshold"
proof -
  from assms have f: "is_finite (overflow (r' / t))"
    by simp
  then show "r' / t < overflow_threshold"
    by (rule overflow_finite_bound)
  from f assms(1) show "Fin r' / Fin t = Fin (r' / t)"
    by (simp add: overflow_finite)
qed

lemma budget_mono:
  assumes "r \<le> r'" "0 < t" "0 \<le> b" "is_finite (Fin r' / Fin t)"
    and "X \<le> (Fin r / Fin t) * Fin b"
  shows "X \<le> (Fin r' / Fin t) * Fin b"
proof -
  have "r / t \<le> r' / t"
    using assms(1,2) by (simp add: divide_right_mono)
  moreover from assms(2,5) have "X \<le> overflow (r / t) * Fin b"
    by simp
  ultimately show ?thesis
    unfolding scale_finite(1) [OF assms(2,4)]
    using scale_finite(2) [OF assms(2,4)] assms(3) by (intro scale_mono [of "r / t"])
qed

lemma pair_scale_finite:
  assumes "0 < t" "is_finite (Fin r' * Fin c / Fin t)"
  shows "Fin r' * Fin c / Fin t = Fin (r' * c / t)" "r' * c / t < overflow_threshold"
    "r' * c < overflow_threshold"
proof -
  from assms(2) have m: "is_finite (overflow (r' * c))"
    by (cases "overflow (r' * c)") (simp_all split: if_splits)
  then show "r' * c < overflow_threshold"
    by (rule overflow_finite_bound)
  from m have e: "Fin r' * Fin c = Fin (r' * c)"
    by (simp add: overflow_finite)
  with assms have f: "is_finite (overflow (r' * c / t))"
    by simp
  then show "r' * c / t < overflow_threshold"
    by (rule overflow_finite_bound)
  from f e assms(1) show "Fin r' * Fin c / Fin t = Fin (r' * c / t)"
    by (simp add: overflow_finite)
qed

lemma pair_scale_below:
  assumes "r \<le> r'" "0 < t" "0 \<le> c" "r' * c < overflow_threshold"
  shows "\<exists>u. u \<le> r' * c / t \<and> Fin r * Fin c / Fin t = overflow u"
proof -
  have le: "r * c \<le> r' * c"
    using assms(1,3) by (rule mult_right_mono)
  from overflow_cases [of "r * c"] show ?thesis
  proof (elim disjE conjE)
    assume "overflow (r * c) = Fin (r * c)"
    with assms(2) have "Fin r * Fin c / Fin t = overflow (r * c / t)"
      by simp
    moreover have "r * c / t \<le> r' * c / t"
      using le assms(2) by (simp add: divide_right_mono)
    ultimately show ?thesis
      by blast
  next
    assume "overflow_threshold \<le> r * c"
    with le assms(4) show ?thesis
      by simp
  next
    assume n: "overflow (r * c) = NInf" and b: "r * c \<le> - overflow_threshold"
    define u where "u = min (- overflow_threshold) (r' * c / t)"
    have "u \<le> - overflow_threshold"
      by (simp add: u_def)
    with overflow_cases [of u] overflow_threshold_positive have "overflow u = NInf"
      by auto
    moreover from n assms(2) have "Fin r * Fin c / Fin t = NInf"
      by simp
    moreover have "u \<le> r' * c / t"
      by (simp add: u_def)
    ultimately show ?thesis
      by auto
  qed
qed

lemma pair_budget_mono:
  assumes "r \<le> r'" "0 < t" "0 \<le> c" "0 \<le> b" "is_finite (Fin r' * Fin c / Fin t)"
    and "X \<le> Fin r * Fin c / Fin t * Fin b"
  shows "X \<le> Fin r' * Fin c / Fin t * Fin b"
proof -
  note f = pair_scale_finite [OF assms(2,5)]
  from pair_scale_below [OF assms(1,2,3) f(3)] obtain u where
    u: "u \<le> r' * c / t" "Fin r * Fin c / Fin t = overflow u"
    by blast
  from assms(6) have "X \<le> overflow u * Fin b"
    unfolding u(2) .
  with u(1) f(2) assms(4) show ?thesis
    unfolding f(1) by (intro scale_mono [of u])
qed

lemma first_node_prunable_mono:
  assumes "r \<le> r'" "0 < t" "0 \<le> c"
    and fs: "is_finite (Fin r' / Fin t)"
    and fp: "is_finite (Fin r' * Fin c / Fin t)"
    and f: "finite_budget (stat (s n0))"
    and p: "Fin 0 \<le> positive_gradient1_l (stat (s n0)) +
                    postponed_positive_gradient1_l (stat (s n0))"
    and h: "first_node_prunable s (n0, n1, n2) e1 e2 e3 e4 (Fin c) (Fin r) (Fin t)"
  shows "first_node_prunable s (n0, n1, n2) e1 e2 e3 e4 (Fin c) (Fin r') (Fin t)"
proof -
  from f obtain x y p' q where
    x: "negative_gradient1_u (stat (s n0)) = Fin x"
    and y: "postponed_negative_gradient1_u (stat (s n0)) = Fin y"
    and p': "positive_gradient1_l (stat (s n0)) = Fin p'"
    and q: "postponed_positive_gradient1_l (stat (s n0)) = Fin q"
    unfolding finite_budget_def by (auto dest!: is_finite_Fin)
  from f obtain l1 l2 l3 where
    l1: "L1Norm' (negative_gradient2_u (stat (s n0))) = Fin l1" "0 \<le> l1"
    and l2: "L1Norm' (positive_gradient2_l (stat (s n0))) = Fin l2" "0 \<le> l2"
    and l3: "L1Norm' (postponed_positive_gradient2_l (stat (s n0))) = Fin l3" "0 \<le> l3"
    unfolding finite_budget_def by (auto dest!: L1Norm_finite)
  from p have pq: "0 \<le> p' + q"
    by (simp add: p' q)
  from l2 l3 have l23: "0 \<le> l2 + l3"
    by simp
  note rw = prod.case x y p' q l1(1) l2(1) l3(1) fabs_Fin plus_double.simps(1)
  note h' = h [unfolded first_node_prunable_def rw]
  show ?thesis
    unfolding first_node_prunable_def rw
  proof (intro conjI)
    show "e1 + e3 \<le> Fin r' / Fin t * Fin \<bar>x + y\<bar>"
      by (rule budget_mono [OF assms(1,2) abs_ge_zero fs h' [THEN conjunct1]])
    show "e2 + e4 \<le> Fin r' / Fin t * Fin (p' + q)"
      by (rule budget_mono [OF assms(1,2) pq fs h' [THEN conjunct2, THEN conjunct1]])
    show "of_index (count (s n2)) * l1_norm_coordinate_sum' (stat (s n1)) * e1 +
          of_index (count (s n1)) * l1_norm_coordinate_sum' (stat (s n2)) * e3
          \<le> Fin r' * Fin c / Fin t * Fin l1"
      by (rule pair_budget_mono [OF assms(1,2,3) l1(2) fp
            h' [THEN conjunct2, THEN conjunct2, THEN conjunct1]])
    show "of_index (count (s n2)) * l1_norm_coordinate_sum' (stat (s n1)) * e2 +
          of_index (count (s n1)) * l1_norm_coordinate_sum' (stat (s n2)) * e4
          \<le> Fin r' * Fin c / Fin t * Fin (l2 + l3)"
      by (rule pair_budget_mono [OF assms(1,2,3) l23 fp
            h' [THEN conjunct2, THEN conjunct2, THEN conjunct2]])
  qed
qed

lemma second_node_test_mono:
  assumes "r \<le> r'" "0 < t" "0 \<le> c"
    and fs: "is_finite (Fin r' / Fin t)"
    and fp: "is_finite (Fin r' * Fin c / Fin t)"
    and f: "finite_budget (stat (s n1))"
    and p: "Fin 0 \<le> positive_gradient1_l (stat (s n1)) +
                    postponed_positive_gradient1_l (stat (s n1))"
    and h: "second_node_test s (n0, n1, n2) e1 e2 e3 e4 (Fin c) (Fin r) (Fin t)"
  shows "second_node_test s (n0, n1, n2) e1 e2 e3 e4 (Fin c) (Fin r') (Fin t)"
proof -
  from f obtain x y p' q where
    x: "negative_gradient1_u (stat (s n1)) = Fin x"
    and y: "postponed_negative_gradient1_u (stat (s n1)) = Fin y"
    and p': "positive_gradient1_l (stat (s n1)) = Fin p'"
    and q: "postponed_positive_gradient1_l (stat (s n1)) = Fin q"
    unfolding finite_budget_def by (auto dest!: is_finite_Fin)
  from f obtain l1 l2 l3 l4 where
    l1: "L1Norm' (negative_gradient2_u (stat (s n1))) = Fin l1" "0 \<le> l1"
    and l4: "L1Norm' (postponed_negative_gradient2_u (stat (s n1))) = Fin l4" "0 \<le> l4"
    and l2: "L1Norm' (positive_gradient2_l (stat (s n1))) = Fin l2" "0 \<le> l2"
    and l3: "L1Norm' (postponed_positive_gradient2_l (stat (s n1))) = Fin l3" "0 \<le> l3"
    unfolding finite_budget_def by (auto dest!: L1Norm_finite)
  from p have pq: "0 \<le> p' + q"
    by (simp add: p' q)
  from l2 l3 have l23: "0 \<le> l2 + l3"
    by simp
  from l1 l4 have l14: "0 \<le> l1 + l4"
    by simp
  note rw = prod.case x y p' q l1(1) l2(1) l3(1) l4(1) fabs_Fin plus_double.simps(1)
  note h' = h [unfolded second_node_test_def rw]
  show ?thesis
    unfolding second_node_test_def rw
  proof (intro conjI)
    show "e1 + e3 \<le> Fin r' / Fin t * Fin \<bar>x + y\<bar>"
      by (rule budget_mono [OF assms(1,2) abs_ge_zero fs h' [THEN conjunct1]])
    show "e2 + e4 \<le> Fin r' / Fin t * Fin (p' + q)"
      by (rule budget_mono [OF assms(1,2) pq fs h' [THEN conjunct2, THEN conjunct1]])
    show "of_index (count (s n2)) * l1_norm_coordinate_sum' (stat (s n0)) * e1 +
          of_index (count (s n0)) * l1_norm_coordinate_sum' (stat (s n2)) * e3
          \<le> Fin r' * Fin c / Fin t * Fin (l1 + l4)"
      by (rule pair_budget_mono [OF assms(1,2,3) l14 fp
            h' [THEN conjunct2, THEN conjunct2, THEN conjunct1]])
    show "of_index (count (s n2)) * l1_norm_coordinate_sum' (stat (s n0)) * e2 +
          of_index (count (s n0)) * l1_norm_coordinate_sum' (stat (s n2)) * e4
          \<le> Fin r' * Fin c / Fin t * Fin (l2 + l3)"
      by (rule pair_budget_mono [OF assms(1,2,3) l23 fp
            h' [THEN conjunct2, THEN conjunct2, THEN conjunct2]])
  qed
qed

lemma third_node_test_mono:
  assumes "r \<le> r'" "0 < t" "0 \<le> c"
    and fs: "is_finite (Fin r' / Fin t)"
    and fp: "is_finite (Fin r' * Fin c / Fin t)"
    and f: "finite_budget (stat (s n2))"
    and p: "Fin 0 \<le> positive_gradient1_l (stat (s n2)) +
                    postponed_positive_gradient1_l (stat (s n2))"
    and h: "third_node_test s (n0, n1, n2) e1 e2 e3 e4 (Fin c) (Fin r) (Fin t)"
  shows "third_node_test s (n0, n1, n2) e1 e2 e3 e4 (Fin c) (Fin r') (Fin t)"
proof -
  from f obtain x y p' q where
    x: "negative_gradient1_u (stat (s n2)) = Fin x"
    and y: "postponed_negative_gradient1_u (stat (s n2)) = Fin y"
    and p': "positive_gradient1_l (stat (s n2)) = Fin p'"
    and q: "postponed_positive_gradient1_l (stat (s n2)) = Fin q"
    unfolding finite_budget_def by (auto dest!: is_finite_Fin)
  from f obtain l1 l2 l3 l4 where
    l1: "L1Norm' (negative_gradient2_u (stat (s n2))) = Fin l1" "0 \<le> l1"
    and l4: "L1Norm' (postponed_negative_gradient2_u (stat (s n2))) = Fin l4" "0 \<le> l4"
    and l2: "L1Norm' (positive_gradient2_l (stat (s n2))) = Fin l2" "0 \<le> l2"
    and l3: "L1Norm' (postponed_positive_gradient2_l (stat (s n2))) = Fin l3" "0 \<le> l3"
    unfolding finite_budget_def by (auto dest!: L1Norm_finite)
  from p have pq: "0 \<le> p' + q"
    by (simp add: p' q)
  from l2 l3 have l23: "0 \<le> l2 + l3"
    by simp
  from l1 l4 have l14: "0 \<le> l1 + l4"
    by simp
  note rw = prod.case x y p' q l1(1) l2(1) l3(1) l4(1) fabs_Fin plus_double.simps(1)
  note h' = h [unfolded third_node_test_def rw]
  show ?thesis
    unfolding third_node_test_def rw
  proof (intro conjI)
    show "e1 + e3 \<le> Fin r' / Fin t * Fin \<bar>x + y\<bar>"
      by (rule budget_mono [OF assms(1,2) abs_ge_zero fs h' [THEN conjunct1]])
    show "e2 + e4 \<le> Fin r' / Fin t * Fin (p' + q)"
      by (rule budget_mono [OF assms(1,2) pq fs h' [THEN conjunct2, THEN conjunct1]])
    show "of_index (count (s n1)) * l1_norm_coordinate_sum' (stat (s n0)) * e1 +
          of_index (count (s n0)) * l1_norm_coordinate_sum' (stat (s n1)) * e3
          \<le> Fin r' * Fin c / Fin t * Fin (l1 + l4)"
      by (rule pair_budget_mono [OF assms(1,2,3) l14 fp
            h' [THEN conjunct2, THEN conjunct2, THEN conjunct1]])
    show "of_index (count (s n1)) * l1_norm_coordinate_sum' (stat (s n0)) * e2 +
          of_index (count (s n0)) * l1_norm_coordinate_sum' (stat (s n1)) * e4
          \<le> Fin r' * Fin c / Fin t * Fin (l2 + l3)"
      by (rule pair_budget_mono [OF assms(1,2,3) l23 fp
            h' [THEN conjunct2, THEN conjunct2, THEN conjunct2]])
  qed
qed

lemma Prunable_mono:
  assumes "r \<le> r'" "0 < t" "0 \<le> jk" "0 \<le> ik" "0 \<le> ij"
    and "is_finite (Fin r' / Fin t)"
    and "is_finite (Fin r' * Fin jk / Fin t)" "is_finite (Fin r' * Fin ik / Fin t)"
      "is_finite (Fin r' * Fin ij / Fin t)"
    and "finite_budget (stat (s n0))" "finite_budget (stat (s n1))"
      "finite_budget (stat (s n2))"
    and "Fin 0 \<le> positive_gradient1_l (stat (s n0)) +
                  postponed_positive_gradient1_l (stat (s n0))"
    and "Fin 0 \<le> positive_gradient1_l (stat (s n1)) +
                  postponed_positive_gradient1_l (stat (s n1))"
    and "Fin 0 \<le> positive_gradient1_l (stat (s n2)) +
                  postponed_positive_gradient1_l (stat (s n2))"
    and h: "Prunable' s (n0, n1, n2) e1n e1p e2n e2p e3n e3p (Fin jk) (Fin ik) (Fin ij)
              (Fin r) (Fin t)"
  shows "Prunable' s (n0, n1, n2) e1n e1p e2n e2p e3n e3p (Fin jk) (Fin ik) (Fin ij)
           (Fin r') (Fin t)"
proof -
  note m1 = first_node_prunable_mono [of r r' t jk s n0,
      OF assms(1,2,3) assms(6,7) assms(10) assms(13)]
  note m2 = second_node_test_mono [of r r' t ik s n1,
      OF assms(1,2,4) assms(6,8) assms(11) assms(14)]
  note m3 = third_node_test_mono [of r r' t ij s n2,
      OF assms(1,2,5) assms(6,9) assms(12) assms(15)]
  from h have t0: "first_node_prunable s (n0, n1, n2) e1n e1p e2n e2p (Fin jk) (Fin r) (Fin t)"
    and t1: "n1 \<noteq> n0 \<Longrightarrow>
             second_node_test s (n0, n1, n2) e1n e1p e3n e3p (Fin ik) (Fin r) (Fin t)"
    and t2: "n2 \<noteq> n1 \<Longrightarrow>
             third_node_test s (n0, n1, n2) e2n e2p e3n e3p (Fin ij) (Fin r) (Fin t)"
    unfolding Prunable'_def by (simp_all add: Let_def split: if_splits)
  show ?thesis
    unfolding Prunable'_def using m1 [OF t0] m2 [OF t1] m3 [OF t2]
    by (auto simp add: Let_def)
qed



text \<open>The nodes of \<open>fresh_store\<close> with zero errors pass the prune test at relative error 1.\<close>

lemma fresh_store_prunable:
  "Prunable' fresh_store (n0, n1, n2) (Fin 0) (Fin 0) (Fin 0) (Fin 0) (Fin 0) (Fin 0)
     (Fin 9) (Fin 9) (Fin 9) (Fin 1) (Fin 1)"
  by (simp add: Prunable'_def first_node_prunable_def second_node_test_def
      third_node_test_def fresh_store_def overflow_small)

section \<open>The claims\<close>

text \<open>
  C10, amended. If the deterministic \<open>Eval\<close> on three tree nodes returns false, then the
  store of the nodes, and so every region's statistics, is as it was before the call. What
  the call writes on that branch is the kernel's scratch state: the distance matrix, and
  \<open>index_orders'\<close> too once the zero-distance check has passed (\<open>EvalGradients\<close> leaves
  the entries 2, 1, 0 there).
\<close>

theorem Eval_false_writes_scratch_only:
  assumes "\<not> fst (Eval MinD MaxD k s (n0, n1, n2) rel z tot)"
  shows "snd (snd (Eval MinD MaxD k s (n0, n1, n2) rel z tot)) = s
       \<and> distmat' (fst (snd (Eval MinD MaxD k s (n0, n1, n2) rel z tot))) =
           distmat' (EvalMinMaxSquaredDistances_nodes MinD MaxD s (n0, n1, n2) k)
       \<and> index_orders' (fst (snd (Eval MinD MaxD k s (n0, n1, n2) rel z tot))) =
           (if deq (MinD (bound (s n0)) (bound (s n1))) (Fin 0) \<or>
               deq (MinD (bound (s n0)) (bound (s n2))) (Fin 0) \<or>
               deq (MinD (bound (s n1)) (bound (s n2))) (Fin 0)
            then index_orders' k
            else (index_orders' k)(0 := 2, 1 := 1, 2 := 0))"
proof -
  obtain a1 b1 c1 d1 where g1: "gradient_core
                 (MinD (bound (s n0)) (bound (s n1))) (MaxD (bound (s n0)) (bound (s n1)))
                 (MinD (bound (s n0)) (bound (s n2))) (MaxD (bound (s n0)) (bound (s n2)))
                 (MinD (bound (s n1)) (bound (s n2))) (MaxD (bound (s n1)) (bound (s n2))) =
               (a1, b1, c1, d1)"
    by (rule gradient_core_cases)
  obtain a2 b2 c2 d2 where g2: "gradient_core
                 (MinD (bound (s n0)) (bound (s n2))) (MaxD (bound (s n0)) (bound (s n2)))
                 (MinD (bound (s n0)) (bound (s n1))) (MaxD (bound (s n0)) (bound (s n1)))
                 (MinD (bound (s n1)) (bound (s n2))) (MaxD (bound (s n1)) (bound (s n2))) =
               (a2, b2, c2, d2)"
    by (rule gradient_core_cases)
  obtain a3 b3 c3 d3 where g3: "gradient_core
                 (MinD (bound (s n1)) (bound (s n2))) (MaxD (bound (s n1)) (bound (s n2)))
                 (MinD (bound (s n0)) (bound (s n2))) (MaxD (bound (s n0)) (bound (s n2)))
                 (MinD (bound (s n0)) (bound (s n1))) (MaxD (bound (s n0)) (bound (s n1))) =
               (a3, b3, c3, d3)"
    by (rule gradient_core_cases)
  have io: "index_orders' (EvalMinMaxSquaredDistances_nodes MinD MaxD s (n0, n1, n2) k) =
              index_orders' k"
    by (simp add: EvalMinMaxSquaredDistances_nodes_eq)
  show ?thesis
    using assms by (auto simp add: Eval_unfold [OF g1 g2 g3] io split: if_splits)
qed

theorem Eval_false_writes_scratch_only_witness:
  "\<not> fst (Eval interval_MinDistanceSq interval_MaxDistanceSq example_kernel line_store
            (0, 1, 2) (Fin 0) (Fin 2) (Fin 1))
   \<and> snd (snd (Eval interval_MinDistanceSq interval_MaxDistanceSq example_kernel line_store
                 (0, 1, 2) (Fin 0) (Fin 2) (Fin 1))) = line_store"
proof -
  have h: "\<not> fst (Eval interval_MinDistanceSq interval_MaxDistanceSq example_kernel
                     line_store (0, 1, 2) (Fin 0) (Fin 2) (Fin 1))"
    unfolding Eval_line_store_exact by simp
  show ?thesis
    using h Eval_false_writes_scratch_only [OF h] by simp
qed

text \<open>
  C10 as stated fails: on this call \<open>Eval\<close> returns false and has written entry 0 of
  \<open>index_orders'\<close>, which is no part of the distance matrix.
\<close>

theorem Eval_false_writes_index_orders:
  "\<not> fst (Eval interval_MinDistanceSq interval_MaxDistanceSq example_kernel line_store
            (0, 1, 2) (Fin 0) (Fin 2) (Fin 1))
   \<and> index_orders' example_kernel 0 = 0
   \<and> index_orders' (fst (snd (Eval interval_MinDistanceSq interval_MaxDistanceSq
        example_kernel line_store (0, 1, 2) (Fin 0) (Fin 2) (Fin 1)))) 0 = 2"
  unfolding Eval_line_store_exact by (simp add: example_kernel_def)

text \<open>
  C5. If the minimum squared distance of the bounds of two of the three slots (as
  \<open>EvalMinMaxSquaredDistances\<close> computes them, slot \<open>i\<close> against slot \<open>j\<close> for \<open>i < j\<close>) is
  zero, or if one of the twelve gradient bounds that \<open>EvalGradients\<close> computes from the
  distance table is NaN or infinite, then \<open>Eval\<close> returns false; it returns, with the
  store of the nodes as it was. The model of \<open>Eval\<close> has no other outcome than a
  returned triple: the code raises nothing.
\<close>

theorem Eval_refuses_degenerate_triples:
  assumes "deq (MinD (bound (s n0)) (bound (s n1))) (Fin 0) \<or>
           deq (MinD (bound (s n0)) (bound (s n2))) (Fin 0) \<or>
           deq (MinD (bound (s n1)) (bound (s n2))) (Fin 0) \<or>
           (\<exists>g \<in> set (gradient_bound_list (fst (EvalGradients
                 (EvalMinMaxSquaredDistances_nodes MinD MaxD s (n0, n1, n2) k)))).
              isnan g \<or> isinf g)"
  shows "\<exists>k'. Eval MinD MaxD k s (n0, n1, n2) rel z tot = (False, k', s)"
proof -
  obtain a1 b1 c1 d1 where g1: "gradient_core
                 (MinD (bound (s n0)) (bound (s n1))) (MaxD (bound (s n0)) (bound (s n1)))
                 (MinD (bound (s n0)) (bound (s n2))) (MaxD (bound (s n0)) (bound (s n2)))
                 (MinD (bound (s n1)) (bound (s n2))) (MaxD (bound (s n1)) (bound (s n2))) =
               (a1, b1, c1, d1)"
    by (rule gradient_core_cases)
  obtain a2 b2 c2 d2 where g2: "gradient_core
                 (MinD (bound (s n0)) (bound (s n2))) (MaxD (bound (s n0)) (bound (s n2)))
                 (MinD (bound (s n0)) (bound (s n1))) (MaxD (bound (s n0)) (bound (s n1)))
                 (MinD (bound (s n1)) (bound (s n2))) (MaxD (bound (s n1)) (bound (s n2))) =
               (a2, b2, c2, d2)"
    by (rule gradient_core_cases)
  obtain a3 b3 c3 d3 where g3: "gradient_core
                 (MinD (bound (s n1)) (bound (s n2))) (MaxD (bound (s n1)) (bound (s n2)))
                 (MinD (bound (s n0)) (bound (s n2))) (MaxD (bound (s n0)) (bound (s n2)))
                 (MinD (bound (s n0)) (bound (s n1))) (MaxD (bound (s n0)) (bound (s n1))) =
               (a3, b3, c3, d3)"
    by (rule gradient_core_cases)
  have gs: "fst (EvalGradients (EvalMinMaxSquaredDistances_nodes MinD MaxD s (n0, n1, n2) k)) =
              ((a1, b1, c1, d1), (a2, b2, c2, d2), (a3, b3, c3, d3))"
    by (simp only: EvalGradients_nodes g1 g2 g3)
  from assms have
    "deq (MinD (bound (s n0)) (bound (s n1))) (Fin 0) \<or>
     deq (MinD (bound (s n0)) (bound (s n2))) (Fin 0) \<or>
     deq (MinD (bound (s n1)) (bound (s n2))) (Fin 0) \<or>
     components_nan_or_inf a1 b1 c1 d1 a2 b2 c2 d2 a3 b3 c3 d3"
    unfolding gs components_nan_or_inf_list by blast
  then show ?thesis
    unfolding Eval_unfold [OF g1 g2 g3] by auto
qed

theorem Eval_refuses_degenerate_triples_witness:
  "(\<exists>k'. Eval interval_MinDistanceSq interval_MaxDistanceSq example_kernel line_store
           (0, 0, 2) (Fin 1) (Fin 2) (Fin 1) = (False, k', line_store))
   \<and> (\<exists>k'. Eval (\<lambda>a b. Fin 1) (\<lambda>a b. PInf) example_kernel unit_store
              (0, 2, 4) (Fin 1) (Fin 2) (Fin 1) = (False, k', unit_store))"
proof
  have "deq (interval_MinDistanceSq (bound (line_store 0)) (bound (line_store 0))) (Fin 0)"
    by (simp add: line_store_distances)
  then show "\<exists>k'. Eval interval_MinDistanceSq interval_MaxDistanceSq example_kernel
                    line_store (0, 0, 2) (Fin 1) (Fin 2) (Fin 1) = (False, k', line_store)"
    by (intro Eval_refuses_degenerate_triples) simp
next
  have "isinf PInf \<and> PInf \<in> set (gradient_bound_list (fst (EvalGradients
          (EvalMinMaxSquaredDistances_nodes (\<lambda>a b. Fin 1) (\<lambda>a b. PInf) unit_store
             (0, 2, 4) example_kernel))))"
    by (simp add: EvalGradients_nodes unbounded_gradient)
  then show "\<exists>k'. Eval (\<lambda>a b. Fin 1) (\<lambda>a b. PInf) example_kernel unit_store
                    (0, 2, 4) (Fin 1) (Fin 2) (Fin 1) = (False, k', unit_store)"
    by (intro Eval_refuses_degenerate_triples) blast
qed

text \<open>
  C6. \<open>Prunable'\<close> returns true exactly when the three slot tests pass, where the test
  of slot 1 is the verdict of slot 0 when slot 1 holds the node of slot 0, and the test
  of slot 2 is the verdict of slot 1 when slot 2 holds the node of slot 1; and it is
  evaluated in slot order, false at the first slot test that fails.
\<close>

theorem Prunable_iff_slot_tests:
  "Prunable' s (n0, n1, n2) e1n e1p e2n e2p e3n e3p jk ik ij rel tot =
     (let t0 = first_node_prunable s (n0, n1, n2) e1n e1p e2n e2p jk rel tot;
          t1 = (if n1 = n0 then t0
                else second_node_test s (n0, n1, n2) e1n e1p e3n e3p ik rel tot);
          t2 = (if n2 = n1 then t1
                else third_node_test s (n0, n1, n2) e2n e2p e3n e3p ij rel tot)
      in (t0 \<and> t1 \<and> t2))
   \<and>
   Prunable' s (n0, n1, n2) e1n e1p e2n e2p e3n e3p jk ik ij rel tot =
     (let t0 = first_node_prunable s (n0, n1, n2) e1n e1p e2n e2p jk rel tot;
          t1 = (if n1 = n0 then t0
                else second_node_test s (n0, n1, n2) e1n e1p e3n e3p ik rel tot);
          t2 = (if n2 = n1 then t1
                else third_node_test s (n0, n1, n2) e2n e2p e3n e3p ij rel tot)
      in (if \<not> t0 then False else if \<not> t1 then False else t2))"
  by (simp add: Prunable'_def Let_def)

text \<open>
  C9. Whenever \<open>MonteCarloEval\<close> terminates, it returns false and leaves the store of the
  nodes, and so every region's statistics, as it was; and its result (also whether it
  terminates) is the same for every \<open>relative_error\<close> and
  \<open>total_n_minus_one_num_tuples\<close>, and for every z-score, on every input and every
  sequence of draws.
\<close>

theorem MonteCarloEval_returns_false:
  "(MonteCarloEval data indices k s nodes rel z tot draws = Some (b, indices', k', s') \<longrightarrow>
      b = False \<and> s' = s)
   \<and> MonteCarloEval data indices k s nodes rel' z' tot' draws =
       MonteCarloEval data indices k s nodes rel z tot draws"
proof
  show "MonteCarloEval data indices k s nodes rel z tot draws = Some (b, indices', k', s') \<longrightarrow>
          b = False \<and> s' = s"
    unfolding MonteCarloEval_eq
    by (auto split: option.splits dest: MonteCarlo_loop_prunable)
next
  show "MonteCarloEval data indices k s nodes rel' z' tot' draws =
          MonteCarloEval data indices k s nodes rel z tot draws"
    unfolding MonteCarloEval_eq
    by (simp add: MonteCarlo_loop_z [of data z' _ draws z])
qed

theorem MonteCarloEval_returns_false_witness:
  "\<exists>i k'. MonteCarloEval line_data (\<lambda>i. 0) example_kernel unit_store (0, 0, 0)
            (Fin 1) (Fin 2) (Fin 1) (replicate 25 (0, 1, 2)) =
          Some (False, i, k', unit_store)"
proof -
  have "0 < num_sample_trials_remaining (initial_locals (\<lambda>i. 0) example_kernel)"
    and "num_sample_trials_remaining (initial_locals (\<lambda>i. 0) example_kernel) \<le>
           int (length (filter valid_sample (replicate 25 (0, 1, 2))))"
    by (simp_all add: initial_locals_def)
  then obtain st where
    "MonteCarlo_loop line_data (Fin 2) (initial_locals (\<lambda>i. 0) example_kernel)
       (replicate 25 (0, 1, 2)) = Some st"
    using MonteCarlo_loop_returns by blast
  then have r: "MonteCarloEval line_data (\<lambda>i. 0) example_kernel unit_store (0, 0, 0)
            (Fin 1) (Fin 2) (Fin 1) (replicate 25 (0, 1, 2)) =
          Some (prunable st, sampled_indices st, scratch st, unit_store)"
    by (simp add: MonteCarloEval_eq)
  with MonteCarloEval_returns_false [of line_data "\<lambda>i. 0" example_kernel unit_store
      "(0, 0, 0)" "Fin 1" "Fin 2" "Fin 1" "replicate 25 (0, 1, 2)" "prunable st"
      "sampled_indices st" "scratch st" unit_store]
  have "prunable st = False"
    by blast
  with r show ?thesis
    by simp
qed

text \<open>
  C2 fails on the code, in the cross-term condition of slot 0 on the negative gradient:
  its budget reads the region's own \<open>negative_gradient2_u\<close> and not the postponed
  accumulator. The nodes 0, 2 and 4 have the same statistics, with an accumulated vector
  bound of L1 norm 4. When it stands in the postponed accumulator, the test of slot 0
  fails where the test of slot 1 passes, and \<open>Prunable'\<close> is false; when it stands in
  the region's own accumulator, \<open>Prunable'\<close> is true.
\<close>

theorem first_node_ignores_postponed:
  "\<not> first_node_prunable postponed_store (0, 2, 4) (Fin 1) (Fin 0) (Fin 0) (Fin 0)
        (Fin 1) (Fin 1) (Fin 1)
   \<and> second_node_test postponed_store (0, 2, 4) (Fin 1) (Fin 0) (Fin 0) (Fin 0)
        (Fin 1) (Fin 1) (Fin 1)
   \<and> \<not> Prunable' postponed_store (0, 2, 4) (Fin 1) (Fin 0) (Fin 0) (Fin 0) (Fin 0) (Fin 0)
        (Fin 1) (Fin 1) (Fin 1) (Fin 1) (Fin 1)
   \<and> Prunable' flushed_store (0, 2, 4) (Fin 1) (Fin 0) (Fin 0) (Fin 0) (Fin 0) (Fin 0)
        (Fin 1) (Fin 1) (Fin 1) (Fin 1) (Fin 1)"
  by (simp add: Prunable'_def first_node_prunable_def second_node_test_def
      third_node_test_def postponed_store_def flushed_store_def example_stat_def
      overflow_small)

text \<open>
  C8. \<open>Prune'\<close> leaves every node other than those of the three slots as it was, and of
  the nodes of the three slots it changes the statistics only (a node with its old
  statistics put back is the old node). And the store it leaves does not depend on the
  order of the three slot updates: each of the six orders of \<open>Prune_slot 0\<close>,
  \<open>Prune_slot 1\<close> and \<open>Prune_slot 2\<close> gives the store of \<open>Prune'\<close>. The arithmetic of the
  model is exact: with rounding, two additions to one accumulator need not commute.
\<close>

theorem Prune_frame_and_order:
  "(\<forall>a. a \<notin> {n0, n1, n2} \<longrightarrow>
          Prune' (s :: 'a store) (n0, n1, n2) a1 b1 c1 d1 a2 b2 c2 d2 a3 b3 c3 d3 jk ik ij a = s a)
   \<and> (\<forall>a. (Prune' s (n0, n1, n2) a1 b1 c1 d1 a2 b2 c2 d2 a3 b3 c3 d3 jk ik ij a)
              \<lparr>stat := stat (s a)\<rparr> = s a)
   \<and> (let step = (\<lambda>i s. Prune_slot i s (n0, n1, n2)
                      a1 b1 c1 d1 a2 b2 c2 d2 a3 b3 c3 d3 jk ik ij);
           pruned = Prune' s (n0, n1, n2) a1 b1 c1 d1 a2 b2 c2 d2 a3 b3 c3 d3 jk ik ij
       in step 2 (step 1 (step 0 s)) = pruned \<and> step 1 (step 2 (step 0 s)) = pruned \<and>
          step 2 (step 0 (step 1 s)) = pruned \<and> step 0 (step 2 (step 1 s)) = pruned \<and>
          step 1 (step 0 (step 2 s)) = pruned \<and> step 0 (step 1 (step 2 s)) = pruned)"
proof (intro conjI)
  show "\<forall>a. a \<notin> {n0, n1, n2} \<longrightarrow>
          Prune' s (n0, n1, n2) a1 b1 c1 d1 a2 b2 c2 d2 a3 b3 c3 d3 jk ik ij a = s a"
    by (simp add: Prune_slots Prune_slot_other)
  show "\<forall>a. (Prune' s (n0, n1, n2) a1 b1 c1 d1 a2 b2 c2 d2 a3 b3 c3 d3 jk ik ij a)
              \<lparr>stat := stat (s a)\<rparr> = s a"
    by (simp add: Prune_slots Prune_slot_frame)
  define step where
    "step = (\<lambda>i (t :: 'a store).
       Prune_slot i t (n0, n1, n2) a1 b1 c1 d1 a2 b2 c2 d2 a3 b3 c3 d3 jk ik ij)"
  have c: "step i (step j s') = step j (step i s')" for i j s'
    unfolding step_def by (rule Prune_slot_commute)
  have p: "Prune' s (n0, n1, n2) a1 b1 c1 d1 a2 b2 c2 d2 a3 b3 c3 d3 jk ik ij =
             step 2 (step 1 (step 0 s))"
    unfolding step_def by (rule Prune_slots)
  have 1: "step 1 (step 2 (step 0 s)) = step 2 (step 1 (step 0 s))"
    by (rule c)
  have 2: "step 2 (step 0 (step 1 s)) = step 2 (step 1 (step 0 s))"
    by (simp only: c [of 0 1])
  have 3: "step 0 (step 2 (step 1 s)) = step 2 (step 1 (step 0 s))"
    by (simp only: c [of 0 2] c [of 0 1])
  have 4: "step 1 (step 0 (step 2 s)) = step 2 (step 1 (step 0 s))"
    by (simp only: c [of 0 2] c [of 1 2])
  have 5: "step 0 (step 1 (step 2 s)) = step 2 (step 1 (step 0 s))"
    by (simp only: c [of 1 2] c [of 0 2] c [of 0 1])
  show "let step = (\<lambda>i s. Prune_slot i s (n0, n1, n2)
                      a1 b1 c1 d1 a2 b2 c2 d2 a3 b3 c3 d3 jk ik ij);
           pruned = Prune' s (n0, n1, n2) a1 b1 c1 d1 a2 b2 c2 d2 a3 b3 c3 d3 jk ik ij
       in step 2 (step 1 (step 0 s)) = pruned \<and> step 1 (step 2 (step 0 s)) = pruned \<and>
          step 2 (step 0 (step 1 s)) = pruned \<and> step 0 (step 2 (step 1 s)) = pruned \<and>
          step 1 (step 0 (step 2 s)) = pruned \<and> step 0 (step 1 (step 2 s)) = pruned"
    unfolding Let_def step_def [symmetric] p
    using 1 2 3 4 5 by (intro conjI) simp_all
qed

theorem Prune_frame_and_order_witness:
  "Prune' unit_store (0, 0, 4) (Fin 1) (Fin 2) (Fin 3) (Fin 4) (Fin 5) (Fin 6) (Fin 7)
     (Fin 8) (Fin 9) (Fin 10) (Fin 11) (Fin 12) (Fin 3) (Fin 6) (Fin 6) 6 = unit_store 6"
proof -
  have "(6::nat) \<notin> {0, 0, 4}"
    by simp
  with Prune_frame_and_order [of 0 0 4 unit_store] show ?thesis
    by blast
qed

text \<open>
  C4, amended. \<open>ComputeNumTwoTuples'\<close>, with \<open>a\<close>, \<open>b\<close>, \<open>c\<close> the counts of the regions: when
  the three slots hold the same region, each of the three results is \<open>C(a - 1, 2)\<close>; when
  slots i and j hold one region and slot k another, \<open>num_jk_pairs\<close> and \<open>num_ik_pairs\<close>
  are \<open>(a - 1) * b\<close> and \<open>num_ij_pairs\<close> is \<open>C(a, 2)\<close>; when the three regions are
  distinct, the results are \<open>b * c\<close>, \<open>a * c\<close> and \<open>a * b\<close>. This holds when the difference
  and the products are values of \<^verbatim>\<open>index_t\<close> (below \<open>2\<^sup>3\<^sup>1\<close>): the code computes them in
  \<^verbatim>\<open>index_t\<close>. The binomial coefficient is that of the natural numbers (zero for a count
  below 2).
\<close>

theorem ComputeNumTwoTuples_counts_in_range:
  "(in_index_t (count (s n) - 1) \<longrightarrow>
      ComputeNumTwoTuples' s (n, n, n) =
        (Fin (real (nat (count (s n) - 1) choose 2)),
         Fin (real (nat (count (s n) - 1) choose 2)),
         Fin (real (nat (count (s n) - 1) choose 2))))
   \<and> (n \<noteq> m \<and> in_index_t (count (s n) - 1) \<and>
       in_index_t ((count (s n) - 1) * count (s m)) \<longrightarrow>
        ComputeNumTwoTuples' s (n, n, m) =
          (Fin (of_int ((count (s n) - 1) * count (s m))),
           Fin (of_int ((count (s n) - 1) * count (s m))),
           Fin (real (nat (count (s n)) choose 2))))
   \<and> (n0 \<noteq> n1 \<and> n1 \<noteq> n2 \<and> n0 \<noteq> n2 \<and> in_index_t (count (s n1) * count (s n2)) \<and>
       in_index_t (count (s n0) * count (s n2)) \<and> in_index_t (count (s n0) * count (s n1)) \<longrightarrow>
        ComputeNumTwoTuples' s (n0, n1, n2) =
          (Fin (of_int (count (s n1) * count (s n2))),
           Fin (of_int (count (s n0) * count (s n2))),
           Fin (of_int (count (s n0) * count (s n1)))))"
  by (simp add: BinomialCoefficient_2 Let_def index_t_wrap_in_range)

theorem ComputeNumTwoTuples_counts_in_range_witness:
  "ComputeNumTwoTuples' unit_store (0, 0, 0) = (Fin 1, Fin 1, Fin 1)
   \<and> ComputeNumTwoTuples' unit_store (0, 0, 2) = (Fin 6, Fin 6, Fin 3)
   \<and> ComputeNumTwoTuples' unit_store (0, 2, 4) = (Fin 9, Fin 9, Fin 9)"
proof -
  have c: "count (unit_store a) = 3" for a
    by (simp add: unit_store_def)
  have three: "(3::nat) choose 2 = 3"
    by (simp add: numeral_3_eq_3 numeral_2_eq_2)
  have r: "in_index_t 2" "in_index_t 6" "in_index_t 9"
    by (simp_all add: in_index_t_def)
  note T = ComputeNumTwoTuples_counts_in_range [of unit_store 0 2 0 2 4]
  have "ComputeNumTwoTuples' unit_store (0, 0, 0) = (Fin 1, Fin 1, Fin 1)"
    using T [THEN conjunct1] r by (simp add: c del: ComputeNumTwoTuples'.simps)
  moreover have "ComputeNumTwoTuples' unit_store (0, 0, 2) = (Fin 6, Fin 6, Fin 3)"
    using T [THEN conjunct2, THEN conjunct1] r
    by (simp add: c three del: ComputeNumTwoTuples'.simps)
  moreover have "ComputeNumTwoTuples' unit_store (0, 2, 4) = (Fin 9, Fin 9, Fin 9)"
    using T [THEN conjunct2, THEN conjunct2] r
    by (simp add: c del: ComputeNumTwoTuples'.simps)
  ultimately show ?thesis
    by (intro conjI)
qed

text \<open>
  C4 as stated fails. The nodes 0, 2 and 4 of \<open>large_store\<close> are distinct and hold 65536
  points each: the product of two counts is \<open>2\<^sup>3\<^sup>2\<close>, and each of the three results is 0.
\<close>

theorem ComputeNumTwoTuples_wraps_around:
  "ComputeNumTwoTuples' large_store (0, 2, 4) = (Fin 0, Fin 0, Fin 0)
   \<and> count (large_store 2) * count (large_store 4) = 4294967296
   \<and> count (large_store 0) * count (large_store 4) = 4294967296
   \<and> count (large_store 0) * count (large_store 2) = 4294967296"
  by (simp add: large_store_def index_t_wrap_def)






end
